theory Spec2Isabelle
  imports Complex_Main
begin

section \<open>Python values and the library functions the service calls\<close>

text \<open>
  The ML service (\<^verbatim>\<open>src/ml/server.py\<close>) is embedded function by function. A Python
  \<^verbatim>\<open>str\<close> is a list of Unicode code points, since \<^verbatim>\<open>str.replace\<close>, \<^verbatim>\<open>str.strip\<close>
  and the dictionary keys of the service all work on code points. A leading underscore of a
  source name is dropped (\<^verbatim>\<open>_normalize_text\<close> is \<open>normalize_text\<close>).
\<close>

type_synonym ustr = "nat list"

text \<open>ASCII literals of the source, written readably.\<close>

definition ascii :: "string \<Rightarrow> ustr" where
  "ascii s = map of_char s"

text \<open>
  A value as \<^verbatim>\<open>json\<close> decoding produces it (and \<^verbatim>\<open>None\<close>). A decoded object is a
  \<^verbatim>\<open>dict\<close>: its keys are distinct and keep their insertion order. Floats are modelled as
  reals: rounding, infinities and NaN are outside the model.
\<close>

datatype json =
    JNull
  | JBool bool
  | JInt int
  | JFloat real
  | JStr ustr
  | JList "json list"
  | JObj "(ustr \<times> json) list"

text \<open>
  Library code that is not part of the repository is a parameter of the model:
  \<^verbatim>\<open>unicodedata.normalize("NFC", s)\<close>, \<^verbatim>\<open>str.lower\<close>, \<^verbatim>\<open>float(s)\<close> and \<^verbatim>\<open>int(s)\<close> on a
  string (\<open>None\<close> where they raise \<^verbatim>\<open>ValueError\<close>), and \<^verbatim>\<open>np.argsort\<close> with its default
  sort kind.
\<close>

record pylib =
  nfc :: "ustr \<Rightarrow> ustr"
  lower :: "ustr \<Rightarrow> ustr"
  float_of_str :: "ustr \<Rightarrow> real option"
  int_of_str :: "ustr \<Rightarrow> int option"
  argsort :: "real list \<Rightarrow> nat list"

text \<open>
  The exceptions the service can raise, as values. \<open>ClientError\<close> is what \<^verbatim>\<open>aiohttp\<close>
  raises when a request gets no response (connection failure, timeout); \<open>InternalError e\<close>
  is the \<^verbatim>\<open>HTTPException(status_code=500, detail=f"Internal error: {e}")\<close> of the endpoints.
\<close>

datatype error =
    FileNotFoundError "ustr list"
  | AttributeError
  | TypeError
  | ValueError
  | IndexError
  | ClientError ustr
  | HTTPException int ustr
  | InternalError error

subsection \<open>Strings\<close>

text \<open>The code points for which \<^verbatim>\<open>str.isspace\<close> holds; \<^verbatim>\<open>str.strip()\<close> removes exactly these.\<close>

definition isspace :: "nat \<Rightarrow> bool" where
  "isspace c \<longleftrightarrow>
     (0x9 \<le> c \<and> c \<le> 0xD) \<or> (0x1C \<le> c \<and> c \<le> 0x20) \<or> c = 0x85 \<or> c = 0xA0 \<or>
     c = 0x1680 \<or> (0x2000 \<le> c \<and> c \<le> 0x200A) \<or> c = 0x2028 \<or> c = 0x2029 \<or>
     c = 0x202F \<or> c = 0x205F \<or> c = 0x3000"

definition strip :: "ustr \<Rightarrow> ustr" where
  "strip s = rev (dropWhile isspace (rev (dropWhile isspace s)))"

text \<open>\<^verbatim>\<open>s.replace("\u0451", "\u0435")\<close>: CYRILLIC SMALL LETTER IO becomes IE.\<close>

definition replace_yo :: "ustr \<Rightarrow> ustr" where
  "replace_yo s = map (\<lambda>c. if c = 0x451 then 0x435 else c) s"

section \<open>Utils: normalization\<close>

text \<open>
  \<^verbatim>\<open>
  def _normalize_text(s: str) -> str:
      if not isinstance(s, str):
          return ""
      s = unicodedata.normalize("NFC", s)
      s = s.replace("\u0451", "\u0435")
      return s.strip()
  \<close>
\<close>

definition normalize_text :: "pylib \<Rightarrow> json \<Rightarrow> ustr" where
  "normalize_text lib v =
     (case v of
        JStr s \<Rightarrow> strip (replace_yo (nfc lib s))
      | _ \<Rightarrow> [])"

text \<open>
  \<^verbatim>\<open>
  def _norm_token(t: str) -> str:
      if not isinstance(t, str):
          return ""
      s = unicodedata.normalize("NFC", t).strip().lower()
      s = s.replace("\u0451", "\u0435")
      synonyms = {"cpp": "c++", "c plus plus": "c++", "c-\u043f\u043b\u044e\u0441-\u043f\u043b\u044e\u0441": "c++",
                  "\u0441\u0438": "c", "js": "javascript"}
      return synonyms.get(s, s)
  \<close>
\<close>

definition synonyms :: "(ustr \<times> ustr) list" where
  "synonyms =
     [(ascii ''cpp'', ascii ''c++''),
      (ascii ''c plus plus'', ascii ''c++''),
      ([0x63, 0x2D, 0x43F, 0x43B, 0x44E, 0x441, 0x2D, 0x43F, 0x43B, 0x44E, 0x441], ascii ''c++''),
      ([0x441, 0x438], ascii ''c''),
      (ascii ''js'', ascii ''javascript'')]"

definition norm_token :: "pylib \<Rightarrow> json \<Rightarrow> ustr" where
  "norm_token lib t =
     (case t of
        JStr t' \<Rightarrow>
          (let s = replace_yo (lower lib (strip (nfc lib t')))
           in case map_of synonyms s of Some c \<Rightarrow> c | None \<Rightarrow> s)
      | _ \<Rightarrow> [])"

text \<open>Truthiness of a value, as \<^verbatim>\<open>x or default\<close> and \<^verbatim>\<open>if x\<close> test it.\<close>

fun truthy :: "json \<Rightarrow> bool" where
  "truthy JNull = False"
| "truthy (JBool b) = b"
| "truthy (JInt n) = (n \<noteq> 0)"
| "truthy (JFloat r) = (r \<noteq> 0)"
| "truthy (JStr s) = (s \<noteq> [])"
| "truthy (JList xs) = (xs \<noteq> [])"
| "truthy (JObj kvs) = (kvs \<noteq> [])"

text \<open>
  \<^verbatim>\<open>for x in xs or []\<close>: the elements the loop visits. A falsy value gives the empty
  list; a list its elements, a string its characters, a dict its keys; a non-zero number or
  \<^verbatim>\<open>True\<close> is not iterable.
\<close>

definition iter_or_empty :: "json \<Rightarrow> error + json list" where
  "iter_or_empty xs =
     (if \<not> truthy xs then Inr []
      else case xs of
             JList ys \<Rightarrow> Inr ys
           | JStr s \<Rightarrow> Inr (map (\<lambda>c. JStr [c]) s)
           | JObj kvs \<Rightarrow> Inr (map (\<lambda>kv. JStr (fst kv)) kvs)
           | _ \<Rightarrow> Inl TypeError)"

text \<open>
  \<^verbatim>\<open>
  def _norm_list(xs: List[str]) -> List[str]:
      out, seen = [], set()
      for x in xs or []:
          n = _norm_token(x)
          if n and n not in seen:
              out.append(n)
              seen.add(n)
      return out
  \<close>
  \<open>seen\<close> always holds exactly the elements of \<open>out\<close>, so the loop state is \<open>out\<close>.
\<close>

fun norm_list_loop :: "pylib \<Rightarrow> json list \<Rightarrow> ustr list \<Rightarrow> ustr list" where
  "norm_list_loop lib [] out = out"
| "norm_list_loop lib (x # xs) out =
     (let n = norm_token lib x
      in if n \<noteq> [] \<and> n \<notin> set out then norm_list_loop lib xs (out @ [n])
         else norm_list_loop lib xs out)"

definition norm_list :: "pylib \<Rightarrow> json \<Rightarrow> error + ustr list" where
  "norm_list lib xs =
     (case iter_or_empty xs of
        Inl e \<Rightarrow> Inl e
      | Inr ys \<Rightarrow> Inr (norm_list_loop lib ys []))"

section \<open>Configuration\<close>

text \<open>
  The module constants read from the environment at import time
  (\<^verbatim>\<open>DEFAULT_THR\<close>, \<^verbatim>\<open>MP_API_PAGE_LIMIT\<close>, \<^verbatim>\<open>MP_API_CACHE_TTL\<close>): parameters of the model.
\<close>

record config =
  DEFAULT_THR :: real
  MP_API_PAGE_LIMIT :: int
  CACHE_TTL_SEC :: int

section \<open>Artifacts loading\<close>

text \<open>
  The artifacts directory, as the loaders read it: \<^verbatim>\<open>joblib.load\<close> of the model file gives
  the pipeline, modelled by its \<^verbatim>\<open>decision_function([text])[0]\<close>; \<^verbatim>\<open>labels.json\<close> gives
  the label list; \<^verbatim>\<open>thresholds.npy\<close>, when present, is taken to hold a one-dimensional
  array, whose \<^verbatim>\<open>shape\<close> is \<^verbatim>\<open>(len,)\<close>. \<open>None\<close> is a file that does not exist.
\<close>

record artifacts =
  model_file :: "(ustr \<Rightarrow> real list) option"
  labels_file :: "ustr list option"
  thresholds_file :: "real list option"

datatype log_line = InfoArtifactsDir | WarnThresholdsIgnored

text \<open>
  The module globals of the classifier, the lines printed so far, and the texts the
  pipeline's decision function has been called with.
\<close>

record ml_state =
  PIPE :: "(ustr \<Rightarrow> real list) option"
  LABELS :: "ustr list"
  THRESHOLDS :: "real list option"
  stdout :: "log_line list"
  decision_calls :: "ustr list"

definition initial_ml_state :: ml_state where
  "initial_ml_state =
     \<lparr>PIPE = None, LABELS = [], THRESHOLDS = None, stdout = [], decision_calls = []\<rparr>"

text \<open>
  \<^verbatim>\<open>
  def load_artifacts():
      global PIPE, LABELS, THRESHOLDS
      print(f"[INFO] Using ARTIFACTS_DIR = {ARTIFACTS_DIR}")
      ...
      missing = [p.name for p in (model_path, labels_path) if not p.exists()]
      if missing:
          raise FileNotFoundError(...)
      PIPE = joblib.load(model_path)
      LABELS = json.loads(labels_path.read_text(encoding="utf-8"))
      if thr_path.exists():
          THRESHOLDS = np.load(thr_path)
          if THRESHOLDS.shape != (len(LABELS),):
              print("[WARN] thresholds.npy ...")
              THRESHOLDS = None
      else:
          THRESHOLDS = None
  \<close>
\<close>

definition load_artifacts :: "artifacts \<Rightarrow> ml_state \<Rightarrow> (error + unit) \<times> ml_state" where
  "load_artifacts fs st =
     (let st0 = st\<lparr>stdout := stdout st @ [InfoArtifactsDir]\<rparr>;
          missing =
            (if model_file fs = None then [ascii ''tfidf_logreg_ovr.joblib''] else []) @
            (if labels_file fs = None then [ascii ''labels.json''] else [])
      in if missing \<noteq> [] then (Inl (FileNotFoundError missing), st0)
         else case (model_file fs, labels_file fs) of
                (Some pipe, Some labels) \<Rightarrow>
                  (let st1 = st0\<lparr>PIPE := Some pipe, LABELS := labels\<rparr>
                   in case thresholds_file fs of
                        Some thr \<Rightarrow>
                          if length thr \<noteq> length labels
                          then (Inr (), st1\<lparr>THRESHOLDS := None,
                                            stdout := stdout st1 @ [WarnThresholdsIgnored]\<rparr>)
                          else (Inr (), st1\<lparr>THRESHOLDS := Some thr\<rparr>)
                      | None \<Rightarrow> (Inr (), st1\<lparr>THRESHOLDS := None\<rparr>))
              | _ \<Rightarrow> (Inl (FileNotFoundError missing), st0))"

section \<open>ML predict\<close>

definition sigmoid :: "real \<Rightarrow> real" where
  "sigmoid x = 1 / (1 + exp (- x))"

text \<open>
  \<^verbatim>\<open>probs >= thresholds\<close> on one-dimensional arrays: elementwise when the lengths agree,
  broadcast when one of them has length 1, \<^verbatim>\<open>ValueError\<close> otherwise.
\<close>

definition np_ge :: "real list \<Rightarrow> real list \<Rightarrow> error + bool list" where
  "np_ge ps qs =
     (if length ps = length qs then Inr (map (\<lambda>(p, q). p \<ge> q) (zip ps qs))
      else if length ps = 1 then Inr (map (\<lambda>q. hd ps \<ge> q) qs)
      else if length qs = 1 then Inr (map (\<lambda>p. p \<ge> hd qs) ps)
      else Inl ValueError)"

text \<open>\<^verbatim>\<open>np.where(mask)[0]\<close>: the indices at which the mask holds, ascending.\<close>

definition np_where :: "bool list \<Rightarrow> nat list" where
  "np_where flags = filter (\<lambda>i. flags ! i) [0..<length flags]"

text \<open>\<^verbatim>\<open>xs[idx]\<close> for an index list: \<^verbatim>\<open>IndexError\<close> when an index is out of range.\<close>

definition np_take :: "'a list \<Rightarrow> nat list \<Rightarrow> error + 'a list" where
  "np_take xs idx =
     (if list_all (\<lambda>i. i < length xs) idx then Inr (map (\<lambda>i. xs ! i) idx) else Inl IndexError)"

text \<open>
  Lines 142 to 146 of \<^verbatim>\<open>predict_labels\<close>, the selection and the ordering:
  \<^verbatim>\<open>
      idx = np.where(probs >= thresholds)[0]
      if idx.size == 0:
          return []
      idx_sorted = idx[np.argsort(-probs[idx])]
      return [LABELS[i] for i in idx_sorted]
  \<close>
\<close>

definition select_indices :: "pylib \<Rightarrow> real list \<Rightarrow> real list \<Rightarrow> error + nat list" where
  "select_indices lib probs thresholds =
     (case np_ge probs thresholds of
        Inl e \<Rightarrow> Inl e
      | Inr flags \<Rightarrow>
          (let idx = np_where flags
           in if idx = [] then Inr []
              else case np_take probs idx of
                     Inl e \<Rightarrow> Inl e
                   | Inr sel \<Rightarrow> np_take idx (argsort lib (map uminus sel))))"

definition select_labels :: "pylib \<Rightarrow> ustr list \<Rightarrow> real list \<Rightarrow> real list \<Rightarrow> error + ustr list" where
  "select_labels lib labels probs thresholds =
     (case select_indices lib probs thresholds of
        Inl e \<Rightarrow> Inl e
      | Inr idx_sorted \<Rightarrow> np_take labels idx_sorted)"

text \<open>Lines 131 and 132: \<^verbatim>\<open>if PIPE is None or not LABELS: load_artifacts()\<close>.\<close>

definition ensure_loaded :: "artifacts \<Rightarrow> ml_state \<Rightarrow> (error + unit) \<times> ml_state" where
  "ensure_loaded fs st =
     (if PIPE st = None \<or> LABELS st = [] then load_artifacts fs st else (Inr (), st))"

text \<open>Line 140: the thresholds vector in use.\<close>

definition thresholds_in_use :: "config \<Rightarrow> ml_state \<Rightarrow> real list" where
  "thresholds_in_use cfg st =
     (case THRESHOLDS st of
        Some thr \<Rightarrow> thr
      | None \<Rightarrow> replicate (length (LABELS st)) (DEFAULT_THR cfg))"

text \<open>
  \<^verbatim>\<open>
  def predict_labels(description: str) -> List[str]:
      if PIPE is None or not LABELS:
          load_artifacts()
      text = _normalize_text(description or "")
      if not text:
          return []
      scores = PIPE.decision_function([text])   # (1, L)
      probs = 1.0 / (1.0 + np.exp(-scores))[0]  # (L,)
      thresholds = THRESHOLDS if THRESHOLDS is not None else np.full(len(LABELS), DEFAULT_THR, dtype=float)
      ...
  \<close>
  The description is any value (\<^verbatim>\<open>None\<close> included).
\<close>

definition predict_labels ::
  "config \<Rightarrow> pylib \<Rightarrow> artifacts \<Rightarrow> ml_state \<Rightarrow> json \<Rightarrow> (error + ustr list) \<times> ml_state" where
  "predict_labels cfg lib fs st description =
     (case ensure_loaded fs st of
        (Inl e, st1) \<Rightarrow> (Inl e, st1)
      | (Inr _, st1) \<Rightarrow>
          (let text = normalize_text lib (if truthy description then description else JStr [])
           in if text = [] then (Inr [], st1)
              else case PIPE st1 of
                     None \<Rightarrow> (Inl AttributeError, st1)
                   | Some pipe \<Rightarrow>
                       (let scores = pipe text;
                            st2 = st1\<lparr>decision_calls := decision_calls st1 @ [text]\<rparr>;
                            probs = map sigmoid scores;
                            thresholds = thresholds_in_use cfg st2
                        in (select_labels lib (LABELS st2) probs thresholds, st2))))"

section \<open>External API client (catalog)\<close>

text \<open>
  What the catalog API answers to one page request: a status, the body as text and the
  body as \<^verbatim>\<open>resp.json()\<close> decodes it (\<open>Inl\<close> the message when decoding raises), or no
  response at all. The upstream is a function of the number of the request within the
  fetch (0 for the first), the endpoint and the \<^verbatim>\<open>skip\<close> and \<^verbatim>\<open>limit\<close> query parameters.
\<close>

datatype response =
    Response (status: int) (body_text: ustr) (body_json: "ustr + json")
  | NoResponse ustr

type_synonym upstream = "nat \<Rightarrow> ustr \<Rightarrow> int \<Rightarrow> int \<Rightarrow> response"

text \<open>
  \<^verbatim>\<open>
  async def _get_all(endpoint: str) -> List[Dict[str, Any]]:
      items = []
      skip = 0
      ...
          while True:
              url = f"{MP_API_BASE}/{endpoint}?skip={skip}&limit={MP_API_PAGE_LIMIT}"
              async with session.get(url, headers=MP_API_HEADERS) as resp:
                  if resp.status != 200:
                      text = await resp.text()
                      raise HTTPException(status_code=resp.status, detail=f"API error: {text}")
                  try:
                      page = await resp.json()
                  except Exception as e:
                      raise HTTPException(status_code=500, detail=f"Invalid json from API: {e}")
                  if not isinstance(page, list):
                      break
                  items.extend(page)
                  if len(page) < MP_API_PAGE_LIMIT:
                      break
                  skip += MP_API_PAGE_LIMIT
      return items
  \<close>
  The loop may run forever (an upstream that always answers a full page), so it is a
  partial function: \<open>None\<close> is a run that does not return. Beside the result it returns the
  page requests it has sent, as \<open>(skip, limit)\<close> pairs in order.
\<close>

partial_function (option) get_all_loop ::
  "upstream \<Rightarrow> ustr \<Rightarrow> int \<Rightarrow> nat \<Rightarrow> int \<Rightarrow> json list \<Rightarrow> (int \<times> int) list \<Rightarrow>
   ((error + json list) \<times> (int \<times> int) list) option" where
  "get_all_loop srv endpoint plimit k skip items sent =
     (case srv k endpoint skip plimit of
        NoResponse msg \<Rightarrow> Some (Inl (ClientError msg), sent @ [(skip, plimit)])
      | Response st txt body \<Rightarrow>
          (if st \<noteq> 200
           then Some (Inl (HTTPException st (ascii ''API error: '' @ txt)), sent @ [(skip, plimit)])
           else (case body of
                   Inl msg \<Rightarrow>
                     Some (Inl (HTTPException 500 (ascii ''Invalid json from API: '' @ msg)),
                           sent @ [(skip, plimit)])
                 | Inr page \<Rightarrow>
                     (case page of
                        JList xs \<Rightarrow>
                          (if int (length xs) < plimit
                           then Some (Inr (items @ xs), sent @ [(skip, plimit)])
                           else get_all_loop srv endpoint plimit (Suc k) (skip + plimit)
                                  (items @ xs) (sent @ [(skip, plimit)]))
                      | _ \<Rightarrow> Some (Inr items, sent @ [(skip, plimit)])))))"

definition get_all ::
  "config \<Rightarrow> upstream \<Rightarrow> ustr \<Rightarrow> ((error + json list) \<times> (int \<times> int) list) option" where
  "get_all cfg srv endpoint = get_all_loop srv endpoint (MP_API_PAGE_LIMIT cfg) 0 0 [] []"

section \<open>The catalog cache\<close>

text \<open>
  The two cache dictionaries \<^verbatim>\<open>{"ts": 0.0, "items": []}\<close> and a log of the fetches made:
  one entry per call of \<^verbatim>\<open>_get_all\<close>, the endpoint and the page requests sent.
\<close>

record cache_slot =
  ts :: real
  items :: "json list"

record catalog_state =
  cache_comm :: cache_slot
  cache_posts :: cache_slot
  fetch_log :: "(ustr \<times> (int \<times> int) list) list"

definition initial_catalog_state :: catalog_state where
  "initial_catalog_state =
     \<lparr>cache_comm = \<lparr>ts = 0, items = []\<rparr>, cache_posts = \<lparr>ts = 0, items = []\<rparr>, fetch_log = []\<rparr>"

text \<open>
  \<^verbatim>\<open>
  async def _get_communities() -> List[Dict[str, Any]]:
      now = time.time()
      if now - _cache_comm["ts"] > CACHE_TTL_SEC:
          _cache_comm["items"] = await _get_all("communities/")
          _cache_comm["ts"] = now
      return _cache_comm["items"]
  \<close>
  \<open>now\<close> is what \<^verbatim>\<open>time.time()\<close> returns, \<open>srv\<close> the upstream during this call.
\<close>

definition get_communities ::
  "config \<Rightarrow> upstream \<Rightarrow> real \<Rightarrow> catalog_state \<Rightarrow> ((error + json list) \<times> catalog_state) option" where
  "get_communities cfg srv now st =
     (if now - ts (cache_comm st) > real_of_int (CACHE_TTL_SEC cfg)
      then case get_all cfg srv (ascii ''communities/'') of
             None \<Rightarrow> None
           | Some (r, sent) \<Rightarrow>
               (let st1 = st\<lparr>fetch_log := fetch_log st @ [(ascii ''communities/'', sent)]\<rparr>
                in case r of
                     Inl e \<Rightarrow> Some (Inl e, st1)
                   | Inr xs \<Rightarrow> Some (Inr xs, st1\<lparr>cache_comm := \<lparr>ts = now, items = xs\<rparr>\<rparr>))
      else Some (Inr (items (cache_comm st)), st))"

text \<open>\<^verbatim>\<open>_get_posts\<close> is the same function on the other slot and endpoint.\<close>

definition get_posts ::
  "config \<Rightarrow> upstream \<Rightarrow> real \<Rightarrow> catalog_state \<Rightarrow> ((error + json list) \<times> catalog_state) option" where
  "get_posts cfg srv now st =
     (if now - ts (cache_posts st) > real_of_int (CACHE_TTL_SEC cfg)
      then case get_all cfg srv (ascii ''posts/'') of
             None \<Rightarrow> None
           | Some (r, sent) \<Rightarrow>
               (let st1 = st\<lparr>fetch_log := fetch_log st @ [(ascii ''posts/'', sent)]\<rparr>
                in case r of
                     Inl e \<Rightarrow> Some (Inl e, st1)
                   | Inr xs \<Rightarrow> Some (Inr xs, st1\<lparr>cache_posts := \<lparr>ts = now, items = xs\<rparr>\<rparr>))
      else Some (Inr (items (cache_posts st)), st))"

section \<open>Recommendations: one-hot vectors and cosine similarity\<close>

subsection \<open>Dictionary access and conversions\<close>

text \<open>\<^verbatim>\<open>obj.get(key, default)\<close>: only a dict has the method.\<close>

definition py_get :: "json \<Rightarrow> ustr \<Rightarrow> json \<Rightarrow> error + json" where
  "py_get obj key dflt =
     (case obj of
        JObj kvs \<Rightarrow> Inr (case map_of kvs key of Some v \<Rightarrow> v | None \<Rightarrow> dflt)
      | _ \<Rightarrow> Inl AttributeError)"

text \<open>\<^verbatim>\<open>int(v)\<close>: a float is truncated towards zero.\<close>

definition py_int :: "pylib \<Rightarrow> json \<Rightarrow> error + int" where
  "py_int lib v =
     (case v of
        JInt n \<Rightarrow> Inr n
      | JBool b \<Rightarrow> Inr (if b then 1 else 0)
      | JFloat r \<Rightarrow> Inr (if r \<ge> 0 then \<lfloor>r\<rfloor> else \<lceil>r\<rceil>)
      | JStr s \<Rightarrow> (case int_of_str lib s of Some n \<Rightarrow> Inr n | None \<Rightarrow> Inl ValueError)
      | _ \<Rightarrow> Inl TypeError)"

text \<open>\<^verbatim>\<open>float(v)\<close>.\<close>

definition py_float :: "pylib \<Rightarrow> json \<Rightarrow> error + real" where
  "py_float lib v =
     (case v of
        JInt n \<Rightarrow> Inr (real_of_int n)
      | JBool b \<Rightarrow> Inr (if b then 1 else 0)
      | JFloat r \<Rightarrow> Inr r
      | JStr s \<Rightarrow> (case float_of_str lib s of Some r \<Rightarrow> Inr r | None \<Rightarrow> Inl ValueError)
      | _ \<Rightarrow> Inl TypeError)"

text \<open>A one-dimensional write \<^verbatim>\<open>v[j] = x\<close>: \<^verbatim>\<open>IndexError\<close> when \<open>j\<close> is out of range.\<close>

definition np_set :: "real list \<Rightarrow> nat \<Rightarrow> real \<Rightarrow> error + real list" where
  "np_set v j x = (if j < length v then Inr (v[j := x]) else Inl IndexError)"

subsection \<open>The vocabulary\<close>

text \<open>
  \<^verbatim>\<open>
  def _build_vocab(objects: List[Dict[str, Any]]) -> Dict[str, int]:
      vocab: Dict[str, int] = {}
      for obj in objects:
          for tok in _norm_list(obj.get("skills", [])):
              if tok not in vocab:
                  vocab[tok] = len(vocab)
      return vocab
  \<close>
  The dict is an association list in insertion order: \<open>map_of\<close> is the lookup, \<open>length\<close>
  is \<^verbatim>\<open>len\<close>.
\<close>

type_synonym vocab = "(ustr \<times> nat) list"

fun vocab_add_all :: "vocab \<Rightarrow> ustr list \<Rightarrow> vocab" where
  "vocab_add_all vocab [] = vocab"
| "vocab_add_all vocab (tok # toks) =
     vocab_add_all (if map_of vocab tok = None then vocab @ [(tok, length vocab)] else vocab) toks"

fun build_vocab_loop :: "pylib \<Rightarrow> json list \<Rightarrow> vocab \<Rightarrow> error + vocab" where
  "build_vocab_loop lib [] vocab = Inr vocab"
| "build_vocab_loop lib (obj # objs) vocab =
     (case py_get obj (ascii ''skills'') (JList []) of
        Inl e \<Rightarrow> Inl e
      | Inr sk \<Rightarrow>
          (case norm_list lib sk of
             Inl e \<Rightarrow> Inl e
           | Inr toks \<Rightarrow> build_vocab_loop lib objs (vocab_add_all vocab toks)))"

definition build_vocab :: "pylib \<Rightarrow> json list \<Rightarrow> error + vocab" where
  "build_vocab lib objects = build_vocab_loop lib objects []"

subsection \<open>Item vectors\<close>

text \<open>
  Line 226: \<^verbatim>\<open>float(obj.get("member_count", obj.get("like_count", 0)) or 0)\<close>. The inner
  \<^verbatim>\<open>get\<close> is evaluated first, as the argument of the outer one.
\<close>

definition item_popularity :: "pylib \<Rightarrow> json \<Rightarrow> error + real" where
  "item_popularity lib obj =
     (case py_get obj (ascii ''like_count'') (JInt 0) of
        Inl e \<Rightarrow> Inl e
      | Inr likes \<Rightarrow>
          (case py_get obj (ascii ''member_count'') likes of
             Inl e \<Rightarrow> Inl e
           | Inr v \<Rightarrow> py_float lib (if truthy v then v else JInt 0)))"

text \<open>
  The inner loop of \<^verbatim>\<open>_one_hot_matrix\<close> on row \<open>i\<close>:
  \<^verbatim>\<open>
          for tok in _norm_list(obj.get("skills", [])):
              j = vocab.get(tok)
              if j is not None:
                  M[i, j] = 1.0
              if tok == "arduino":
                  jcpp = vocab.get("c++")
                  if jcpp is not None:
                      M[i, jcpp] = 1.0
  \<close>
\<close>

fun item_row_loop :: "vocab \<Rightarrow> ustr list \<Rightarrow> real list \<Rightarrow> error + real list" where
  "item_row_loop vocab [] row = Inr row"
| "item_row_loop vocab (tok # toks) row =
     (case (case map_of vocab tok of Some j \<Rightarrow> np_set row j 1 | None \<Rightarrow> Inr row) of
        Inl e \<Rightarrow> Inl e
      | Inr row1 \<Rightarrow>
          (case (if tok = ascii ''arduino''
                 then (case map_of vocab (ascii ''c++'') of
                         Some jcpp \<Rightarrow> np_set row1 jcpp 1
                       | None \<Rightarrow> Inr row1)
                 else Inr row1) of
             Inl e \<Rightarrow> Inl e
           | Inr row2 \<Rightarrow> item_row_loop vocab toks row2))"

text \<open>One iteration of the outer loop: the id, the popularity and the row of one object.\<close>

definition one_hot_item :: "pylib \<Rightarrow> vocab \<Rightarrow> json \<Rightarrow> error + (real list \<times> int \<times> real)" where
  "one_hot_item lib vocab obj =
     (case py_get obj (ascii ''id'') (JInt 0) of
        Inl e \<Rightarrow> Inl e
      | Inr idv \<Rightarrow>
          (case py_int lib idv of
             Inl e \<Rightarrow> Inl e
           | Inr i \<Rightarrow>
               (case item_popularity lib obj of
                  Inl e \<Rightarrow> Inl e
                | Inr p \<Rightarrow>
                    (case py_get obj (ascii ''skills'') (JList []) of
                       Inl e \<Rightarrow> Inl e
                     | Inr sk \<Rightarrow>
                         (case norm_list lib sk of
                            Inl e \<Rightarrow> Inl e
                          | Inr toks \<Rightarrow>
                              (case item_row_loop vocab toks (replicate (length vocab) 0) of
                                 Inl e \<Rightarrow> Inl e
                               | Inr row \<Rightarrow> Inr (row, i, p)))))))"

fun one_hot_loop :: "pylib \<Rightarrow> vocab \<Rightarrow> json list \<Rightarrow> error + (real list \<times> int \<times> real) list" where
  "one_hot_loop lib vocab [] = Inr []"
| "one_hot_loop lib vocab (obj # objs) =
     (case one_hot_item lib vocab obj of
        Inl e \<Rightarrow> Inl e
      | Inr it \<Rightarrow>
          (case one_hot_loop lib vocab objs of
             Inl e \<Rightarrow> Inl e
           | Inr its \<Rightarrow> Inr (it # its)))"

text \<open>
  \<^verbatim>\<open>
  def _one_hot_matrix(objects, vocab):
      L = len(vocab)
      if not objects or L == 0:
          return np.zeros((0, 0), ...), np.zeros((0,), ...), np.zeros((0,), ...)
      M = np.zeros((len(objects), L), dtype=np.float32)
      ids = np.zeros((len(objects),), dtype=np.int64)
      pop = np.zeros((len(objects),), dtype=np.float32)
      for i, obj in enumerate(objects):
          ids[i] = int(obj.get("id", 0))
          pop[i] = float(obj.get("member_count", obj.get("like_count", 0)) or 0)
          ...
      return M, ids, pop
  \<close>
  The matrix is the list of its rows.
\<close>

definition one_hot_matrix ::
  "pylib \<Rightarrow> json list \<Rightarrow> vocab \<Rightarrow> error + (real list list \<times> int list \<times> real list)" where
  "one_hot_matrix lib objects vocab =
     (if objects = [] \<or> length vocab = 0 then Inr ([], [], [])
      else case one_hot_loop lib vocab objects of
             Inl e \<Rightarrow> Inl e
           | Inr its \<Rightarrow> Inr (map fst its, map (fst \<circ> snd) its, map (snd \<circ> snd) its))"

subsection \<open>The query vector\<close>

text \<open>
  \<^verbatim>\<open>
  def _skills_to_vec(skills: List[str], vocab: Dict[str, int]) -> np.ndarray:
      v = np.zeros((len(vocab),), dtype=np.float32)
      for tok in _norm_list(skills):
          j = vocab.get(tok)
          if j is not None:
              v[j] = 1.0
          if tok in ("arduino", "<olympiad informatics, in Russian>", "codeforces"):
              jcpp = vocab.get("c++")
              if jcpp is not None:
                  v[jcpp] = 1.0
      return v
  \<close>
\<close>

definition query_hints :: "ustr list" where
  "query_hints =
     [ascii ''arduino'',
      [0x43E, 0x43B, 0x438, 0x43C, 0x43F, 0x438, 0x430, 0x434, 0x43D, 0x430, 0x44F, 0x20,
       0x438, 0x43D, 0x444, 0x43E, 0x440, 0x43C, 0x430, 0x442, 0x438, 0x43A, 0x430],
      ascii ''codeforces'']"

fun skills_loop :: "vocab \<Rightarrow> ustr list \<Rightarrow> real list \<Rightarrow> error + real list" where
  "skills_loop vocab [] v = Inr v"
| "skills_loop vocab (tok # toks) v =
     (case (case map_of vocab tok of Some j \<Rightarrow> np_set v j 1 | None \<Rightarrow> Inr v) of
        Inl e \<Rightarrow> Inl e
      | Inr v1 \<Rightarrow>
          (case (if tok \<in> set query_hints
                 then (case map_of vocab (ascii ''c++'') of
                         Some jcpp \<Rightarrow> np_set v1 jcpp 1
                       | None \<Rightarrow> Inr v1)
                 else Inr v1) of
             Inl e \<Rightarrow> Inl e
           | Inr v2 \<Rightarrow> skills_loop vocab toks v2))"

definition skills_to_vec :: "pylib \<Rightarrow> ustr list \<Rightarrow> vocab \<Rightarrow> error + real list" where
  "skills_to_vec lib skills vocab =
     (case norm_list lib (JList (map JStr skills)) of
        Inl e \<Rightarrow> Inl e
      | Inr toks \<Rightarrow> skills_loop vocab toks (replicate (length vocab) 0))"

subsection \<open>Cosine scores\<close>

text \<open>\<^verbatim>\<open>np.linalg.norm\<close> of a vector, and the dot product of a row with the query.\<close>

definition norm2 :: "real list \<Rightarrow> real" where
  "norm2 v = sqrt (sum_list (map (\<lambda>x. x * x) v))"

definition dot :: "real list \<Rightarrow> real list \<Rightarrow> real" where
  "dot a b = sum_list (map (\<lambda>(x, y). x * y) (zip a b))"

text \<open>
  \<^verbatim>\<open>
  def _cosine_scores(user_vec: np.ndarray, M: np.ndarray) -> np.ndarray:
      if M.size == 0:
          return np.zeros((0,), dtype=np.float32)
      un = np.linalg.norm(user_vec)
      if un == 0.0:
          return np.zeros((M.shape[0],), dtype=np.float32)
      dots = M @ user_vec
      norms = np.linalg.norm(M, axis=1) * un
      norms[norms == 0.0] = 1e-8
      return (dots / norms).astype(np.float32)
  \<close>
  Every row of the matrix has the length of the query vector (both are \<open>length vocab\<close>).
\<close>

definition cosine_scores :: "real list \<Rightarrow> real list list \<Rightarrow> real list" where
  "cosine_scores user_vec M =
     (if sum_list (map length M) = 0 then []
      else let un = norm2 user_vec
           in if un = 0 then replicate (length M) 0
              else map (\<lambda>row. let n = norm2 row * un
                               in dot row user_vec / (if n = 0 then 1 / 10 ^ 8 else n)) M)"

subsection \<open>Ranking and the endpoints\<close>

text \<open>
  \<^verbatim>\<open>np.lexsort(keys)\<close>: an indirect stable sort by the keys, the last key the primary
  one. As in NumPy, the permutation is sorted stably by each key in turn, the first key
  first. \<open>sort_key\<close> is a stable insertion sort.
\<close>

definition lexsort :: "real list list \<Rightarrow> nat list" where
  "lexsort keys =
     foldl (\<lambda>perm key. sort_key (\<lambda>i. key ! i) perm) [0..<length (last keys)] keys"

record reco_request =
  skills :: "ustr list"
  limit :: "int option"

text \<open>Line 288: \<^verbatim>\<open>k = max(1, int(req.limit or 50))\<close>.\<close>

definition reco_k :: "reco_request \<Rightarrow> int" where
  "reco_k req =
     max 1 (case limit req of
              None \<Rightarrow> 50
            | Some n \<Rightarrow> if n \<noteq> 0 then n else 50)"

text \<open>
  The body of both endpoints after the fetch (lines 280 to 290 and 298 to 308):
  \<^verbatim>\<open>
          vocab = _build_vocab(objs)
          M, ids, pop = _one_hot_matrix(objs, vocab)
          u = _skills_to_vec(req.skills, vocab)
          scores = _cosine_scores(u, M)
          if scores.size == 0:
              return []
          order = np.lexsort((-pop, -scores))
          k = max(1, int(req.limit or 50))
          idx = order[:k]
          return [RecoResponseItem(id=int(ids[i]), score=float(scores[i])) for i in idx]
  \<close>
\<close>

definition rank_items :: "int list \<Rightarrow> real list \<Rightarrow> real list \<Rightarrow> reco_request \<Rightarrow> (int \<times> real) list" where
  "rank_items ids pop scores req =
     (if scores = [] then []
      else let order = lexsort [map uminus pop, map uminus scores];
               idx = take (nat (reco_k req)) order
           in map (\<lambda>i. (ids ! i, scores ! i)) idx)"

definition recommend :: "pylib \<Rightarrow> json list \<Rightarrow> reco_request \<Rightarrow> error + (int \<times> real) list" where
  "recommend lib objs req =
     (case build_vocab lib objs of
        Inl e \<Rightarrow> Inl e
      | Inr vocab \<Rightarrow>
          (case one_hot_matrix lib objs vocab of
             Inl e \<Rightarrow> Inl e
           | Inr (M, ids, pop) \<Rightarrow>
               (case skills_to_vec lib (skills req) vocab of
                  Inl e \<Rightarrow> Inl e
                | Inr u \<Rightarrow> Inr (rank_items ids pop (cosine_scores u M) req))))"

text \<open>
  \<^verbatim>\<open>
  async def predict_communities(req: RecoRequest) -> List[RecoResponseItem]:
      try:
          objs = await _get_communities()
          ...
      except Exception as e:
          raise HTTPException(status_code=500, detail=f"Internal error: {e}")
  \<close>
\<close>

definition predict_communities ::
  "config \<Rightarrow> pylib \<Rightarrow> upstream \<Rightarrow> real \<Rightarrow> catalog_state \<Rightarrow> reco_request \<Rightarrow>
   ((error + (int \<times> real) list) \<times> catalog_state) option" where
  "predict_communities cfg lib srv now st req =
     (case get_communities cfg srv now st of
        None \<Rightarrow> None
      | Some (Inl e, st1) \<Rightarrow> Some (Inl (InternalError e), st1)
      | Some (Inr objs, st1) \<Rightarrow>
          (case recommend lib objs req of
             Inl e \<Rightarrow> Some (Inl (InternalError e), st1)
           | Inr res \<Rightarrow> Some (Inr res, st1)))"

definition predict_posts ::
  "config \<Rightarrow> pylib \<Rightarrow> upstream \<Rightarrow> real \<Rightarrow> catalog_state \<Rightarrow> reco_request \<Rightarrow>
   ((error + (int \<times> real) list) \<times> catalog_state) option" where
  "predict_posts cfg lib srv now st req =
     (case get_posts cfg srv now st of
        None \<Rightarrow> None
      | Some (Inl e, st1) \<Rightarrow> Some (Inl (InternalError e), st1)
      | Some (Inr objs, st1) \<Rightarrow>
          (case recommend lib objs req of
             Inl e \<Rightarrow> Some (Inl (InternalError e), st1)
           | Inr res \<Rightarrow> Some (Inr res, st1)))"

section \<open>Library functions for concrete runs\<close>


text \<open>The stable sort keeps the promise; it is \<^verbatim>\<open>np.argsort(x, kind="stable")\<close>.\<close>

definition argsort_stable :: "real list \<Rightarrow> nat list" where
  "argsort_stable ks = sort_key (\<lambda>i. ks ! i) [0..<length ks]"

subsection \<open>NumPy's default argsort\<close>




























subsection \<open>Python's library functions\<close>

text \<open>
  Closed examples need concrete library functions. \<open>nfc_frag\<close> composes CYRILLIC SMALL
  LETTER IE (U+0435) followed by COMBINING DIAERESIS (U+0308) into IO (U+0451) and changes
  nothing else: it is \<^verbatim>\<open>unicodedata.normalize("NFC", s)\<close> on every string over ASCII,
  U+0435, U+0451 and U+0308 in which U+0308 directly follows only U+0435, U+0451 or
  U+0308.
\<close>

fun nfc_frag :: "ustr \<Rightarrow> ustr" where
  "nfc_frag (a # b # cs) =
     (if a = 0x435 \<and> b = 0x308 then 0x451 # nfc_frag cs else a # nfc_frag (b # cs))"
| "nfc_frag cs = cs"

text \<open>\<^verbatim>\<open>str.lower\<close> on strings over ASCII and the Russian alphabet.\<close>

definition lower_frag :: "ustr \<Rightarrow> ustr" where
  "lower_frag s =
     map (\<lambda>c. if (0x41 \<le> c \<and> c \<le> 0x5A) \<or> (0x410 \<le> c \<and> c \<le> 0x42F) then c + 0x20
               else if c = 0x401 then 0x451 else c) s"

text \<open>
  \<^verbatim>\<open>float(s)\<close> and \<^verbatim>\<open>int(s)\<close> on non-empty strings of ASCII digits (their decimal value)
  and on strings of ASCII letters that spell no number (\<^verbatim>\<open>ValueError\<close>).
\<close>

definition digits_value :: "ustr \<Rightarrow> nat option" where
  "digits_value s =
     (if s \<noteq> [] \<and> list_all (\<lambda>c. 0x30 \<le> c \<and> c \<le> 0x39) s
      then Some (foldl (\<lambda>a c. 10 * a + (c - 0x30)) 0 s)
      else None)"

definition cpython_frag :: pylib where
  "cpython_frag =
     \<lparr>nfc = nfc_frag, lower = lower_frag,
      float_of_str = (\<lambda>s. map_option real (digits_value s)),
      int_of_str = (\<lambda>s. map_option int (digits_value s)),
      argsort = argsort_stable\<rparr>"


section \<open>Predicates and example data used in the statements\<close>

text \<open>
  The vocabulary invariant: the keys are distinct and the values are \<open>0, 1, \<dots>, n - 1\<close> in
  insertion order.
\<close>

definition vocab_ok :: "vocab \<Rightarrow> bool" where
  "vocab_ok v \<longleftrightarrow> distinct (map fst v) \<and> map snd v = [0..<length v]"

text \<open>
  A catalog of two communities:
  \<^verbatim>\<open>[{"id": 1, "skills": ["Python", "cpp"], "member_count": 10},
    {"id": 2, "skills": ["arduino", "C++"]}]\<close>.
\<close>

definition example_catalog :: "json list" where
  "example_catalog =
     [JObj [(ascii ''id'', JInt 1),
            (ascii ''skills'', JList [JStr (ascii ''Python''), JStr (ascii ''cpp'')]),
            (ascii ''member_count'', JInt 10)],
      JObj [(ascii ''id'', JInt 2),
            (ascii ''skills'', JList [JStr (ascii ''arduino''), JStr (ascii ''C++'')])]]"

text \<open>The configuration the service has when no environment variable is set.\<close>

definition default_config :: config where
  "default_config = \<lparr>DEFAULT_THR = 1 / 2, MP_API_PAGE_LIMIT = 100, CACHE_TTL_SEC = 60\<rparr>"

text \<open>
  A catalog of two communities with the same skill:
  \<^verbatim>\<open>[{"id": 1, "skills": ["python"], "member_count": 10},
    {"id": 2, "skills": ["python"], "member_count": 20}]\<close>,
  and an upstream that answers every page request with status 200 and that list.
\<close>

definition python_catalog :: "json list" where
  "python_catalog =
     [JObj [(ascii ''id'', JInt 1), (ascii ''skills'', JList [JStr (ascii ''python'')]),
            (ascii ''member_count'', JInt 10)],
      JObj [(ascii ''id'', JInt 2), (ascii ''skills'', JList [JStr (ascii ''python'')]),
            (ascii ''member_count'', JInt 20)]]"

definition python_upstream :: upstream where
  "python_upstream k endpoint skip plimit = Response 200 [] (Inr (JList python_catalog))"



definition misaligned_artifacts :: artifacts where
  "misaligned_artifacts =
     \<lparr>model_file = Some (\<lambda>text. [2, 0, - 2]),
      labels_file = Some [ascii ''a'', ascii ''b'', ascii ''c''],
      thresholds_file = Some [9 / 10, 9 / 10]\<rparr>"

definition no_artifacts :: artifacts where
  "no_artifacts = \<lparr>model_file = None, labels_file = None, thresholds_file = None\<rparr>"

definition loaded :: "artifacts \<Rightarrow> ml_state" where
  "loaded fs = snd (load_artifacts fs initial_ml_state)"

definition three_label_artifacts :: artifacts where
  "three_label_artifacts =
     \<lparr>model_file = Some (\<lambda>text. [0, 2, - 2]),
      labels_file = Some [ascii ''a'', ascii ''b'', ascii ''c''],
      thresholds_file = None\<rparr>"

text \<open>
  For the pagination statements: the answer to the \<open>j\<close>-th page request of a fetch (the
  request with \<^verbatim>\<open>skip = j * limit\<close>), whether it is a full page (status 200 and a list of at
  least \<^verbatim>\<open>limit\<close> items, the one case in which the loop goes on), and the items it carries.
\<close>

definition page_reply :: "config \<Rightarrow> upstream \<Rightarrow> ustr \<Rightarrow> nat \<Rightarrow> response" where
  "page_reply cfg srv ep j = srv j ep (int j * MP_API_PAGE_LIMIT cfg) (MP_API_PAGE_LIMIT cfg)"

definition full_page :: "config \<Rightarrow> response \<Rightarrow> bool" where
  "full_page cfg r \<longleftrightarrow>
     (case r of
        Response st txt (Inr (JList xs)) \<Rightarrow> st = 200 \<and> MP_API_PAGE_LIMIT cfg \<le> int (length xs)
      | _ \<Rightarrow> False)"

definition page_items :: "response \<Rightarrow> json list" where
  "page_items r = (case r of Response st txt (Inr (JList xs)) \<Rightarrow> xs | _ \<Rightarrow> [])"

text \<open>
  A configuration with pages of two items, and an upstream holding three items: it answers
  \<^verbatim>\<open>skip=0\<close> with the first two and every other request with the third.
\<close>

definition small_page_config :: config where
  "small_page_config = \<lparr>DEFAULT_THR = 1 / 2, MP_API_PAGE_LIMIT = 2, CACHE_TTL_SEC = 60\<rparr>"

definition three_item_upstream :: upstream where
  "three_item_upstream k endpoint skip plimit =
     (if skip = 0 then Response 200 [] (Inr (JList [JInt 1, JInt 2]))
      else Response 200 [] (Inr (JList [JInt 3])))"

text \<open>An upstream that answers every request with status 503 and the body \<^verbatim>\<open>down\<close>.\<close>

definition failing_upstream :: upstream where
  "failing_upstream k endpoint skip plimit = Response 503 (ascii ''down'') (Inl (ascii ''no json''))"

text \<open>
  An upstream that answers every request with status 204 (No Content, one of the 2xx
  success statuses) and an empty body, which is not JSON.
\<close>

definition no_content_upstream :: upstream where
  "no_content_upstream k endpoint skip plimit = Response 204 [] (Inl (ascii ''no json''))"

text \<open>
  Two states of the catalog cache: one whose communities slot was filled at time 100, and
  the state after a first fetch of the two-community catalog at time 1700000000.
\<close>

definition warm_state :: catalog_state where
  "warm_state =
     \<lparr>cache_comm = \<lparr>ts = 100, items = python_catalog\<rparr>,
      cache_posts = \<lparr>ts = 100, items = []\<rparr>, fetch_log = []\<rparr>"

definition fetched_state :: catalog_state where
  "fetched_state =
     \<lparr>cache_comm = \<lparr>ts = 1700000000, items = python_catalog\<rparr>,
      cache_posts = \<lparr>ts = 0, items = []\<rparr>,
      fetch_log = [(ascii ''communities/'', [(0, 100)])]\<rparr>"

text \<open>
  The same for the posts slot, and the configuration under \<^verbatim>\<open>MP_API_CACHE_TTL=2000000000\<close>.
\<close>

definition fetched_posts_state :: catalog_state where
  "fetched_posts_state =
     \<lparr>cache_comm = \<lparr>ts = 0, items = []\<rparr>,
      cache_posts = \<lparr>ts = 1700000000, items = python_catalog\<rparr>,
      fetch_log = [(ascii ''posts/'', [(0, 100)])]\<rparr>"

definition long_ttl_config :: config where
  "long_ttl_config = \<lparr>DEFAULT_THR = 1 / 2, MP_API_PAGE_LIMIT = 100, CACHE_TTL_SEC = 2000000000\<rparr>"

section \<open>Properties of the normalizer\<close>

lemma isspace_replace: "isspace (if c = 0x451 then 0x435 else c) = isspace c"
  by (simp add: isspace_def)

lemma replace_yo_dropWhile: "replace_yo (dropWhile isspace s) = dropWhile isspace (replace_yo s)"
  by (induction s) (simp_all add: replace_yo_def isspace_replace del: if_split cong: if_cong)

lemma replace_yo_rev: "replace_yo (rev s) = rev (replace_yo s)"
  by (simp add: replace_yo_def rev_map)

lemma replace_yo_strip: "replace_yo (strip s) = strip (replace_yo s)"
  by (simp add: strip_def replace_yo_rev replace_yo_dropWhile)

lemma replace_yo_idem: "replace_yo (replace_yo s) = replace_yo s"
  by (simp add: replace_yo_def)

lemma rstrip_Cons: "\<not> P a \<Longrightarrow> rev (dropWhile P (rev (a # t))) = a # rev (dropWhile P (rev t))"
  by (simp add: dropWhile_append)

lemma lstrip_rstrip_aux:
  "y = [] \<or> \<not> P (hd y) \<Longrightarrow>
   dropWhile P (rev (dropWhile P (rev y))) = rev (dropWhile P (rev y))"
  by (cases y) (simp_all add: rstrip_Cons del: rev.simps(2))

lemma lstrip_rstrip:
  "dropWhile P (rev (dropWhile P (rev (dropWhile P s)))) = rev (dropWhile P (rev (dropWhile P s)))"
  by (rule lstrip_rstrip_aux) (use hd_dropWhile [of P s] in blast)

lemma strip_idem: "strip (strip s) = strip s"
  by (simp add: strip_def lstrip_rstrip)

text \<open>
  C9, as the spec states it, fails. Take the string of the two code points U+0451 (IO) and
  U+0308 (combining diaeresis). NFC changes nothing, the fold gives U+0435 U+0308, and on
  the second pass NFC composes that pair into U+0451, which the fold turns into U+0435: the
  second pass returns one code point, the first pass two.
\<close>

theorem normalize_text_not_idempotent:
  "normalize_text cpython_frag (JStr [0x451, 0x308]) = [0x435, 0x308] \<and>
   normalize_text cpython_frag (JStr (normalize_text cpython_frag (JStr [0x451, 0x308]))) = [0x435] \<and>
   normalize_text cpython_frag (JStr (normalize_text cpython_frag (JStr [0x451, 0x308])))
     \<noteq> normalize_text cpython_frag (JStr [0x451, 0x308])"
  by (simp add: normalize_text_def cpython_frag_def strip_def replace_yo_def isspace_def)

text \<open>
  C9, amended: \<open>normalize_text\<close> is idempotent on every input whose normalized text
  is left unchanged by NFC (the letter fold and the trimming are idempotent and commute;
  only the composition step can change the result of a second pass). This holds for every
  input value, a string or not, and for every NFC function.
\<close>

theorem normalize_text_idempotent_when_nfc_stable:
  assumes "nfc lib (normalize_text lib v) = normalize_text lib v"
  shows "normalize_text lib (JStr (normalize_text lib v)) = normalize_text lib v"
proof (cases v)
  case (JStr s)
  let ?t = "strip (replace_yo (nfc lib s))"
  from assms JStr have "nfc lib ?t = ?t" by (simp add: normalize_text_def)
  then have "normalize_text lib (JStr ?t) = strip (replace_yo ?t)"
    by (simp add: normalize_text_def)
  also have "\<dots> = ?t" by (simp add: replace_yo_strip replace_yo_idem strip_idem)
  finally show ?thesis using JStr by (simp add: normalize_text_def)
qed (use assms in \<open>simp_all add: normalize_text_def strip_def replace_yo_def\<close>)

theorem normalize_text_idempotent_witness:
  "nfc cpython_frag (normalize_text cpython_frag (JStr [0x20, 0x451, 0x436, 0x20]))
     = normalize_text cpython_frag (JStr [0x20, 0x451, 0x436, 0x20]) \<and>
   normalize_text cpython_frag (JStr [0x20, 0x451, 0x436, 0x20]) = [0x435, 0x436] \<and>
   normalize_text cpython_frag (JStr (normalize_text cpython_frag (JStr [0x20, 0x451, 0x436, 0x20])))
     = normalize_text cpython_frag (JStr [0x20, 0x451, 0x436, 0x20])"
proof -
  have n: "normalize_text cpython_frag (JStr [0x20, 0x451, 0x436, 0x20]) = [0x435, 0x436]"
    by (simp add: normalize_text_def cpython_frag_def strip_def replace_yo_def isspace_def)
  have h: "nfc cpython_frag (normalize_text cpython_frag (JStr [0x20, 0x451, 0x436, 0x20]))
             = normalize_text cpython_frag (JStr [0x20, 0x451, 0x436, 0x20])"
    unfolding n by (simp add: cpython_frag_def)
  from normalize_text_idempotent_when_nfc_stable [OF h] h n show ?thesis by simp
qed

section \<open>The vocabulary and the one-hot writes\<close>

lemma vocab_ok_add: "vocab_ok v \<Longrightarrow> map_of v tok = None \<Longrightarrow> vocab_ok (v @ [(tok, length v)])"
  by (auto simp: vocab_ok_def map_of_eq_None_iff)

lemma vocab_add_all_ok: "vocab_ok v \<Longrightarrow> vocab_ok (vocab_add_all v toks)"
  by (induction toks arbitrary: v) (auto simp: vocab_ok_add)

lemma build_vocab_loop_ok:
  "vocab_ok v \<Longrightarrow> build_vocab_loop lib objs v = Inr v' \<Longrightarrow> vocab_ok v'"
proof (induction objs arbitrary: v)
  case Nil
  then show ?case by simp
next
  case (Cons obj objs)
  from Cons.prems(2) obtain sk toks where
    "build_vocab_loop lib objs (vocab_add_all v toks) = Inr v'"
    by (auto split: sum.splits)
  with Cons.IH [OF vocab_add_all_ok [OF Cons.prems(1)]] show ?case by blast
qed

lemma build_vocab_ok: "build_vocab lib objs = Inr v \<Longrightarrow> vocab_ok v"
  using build_vocab_loop_ok [of "[]" lib objs v] by (simp add: build_vocab_def vocab_ok_def)

lemma vocab_ok_nth: "vocab_ok v \<Longrightarrow> i < length v \<Longrightarrow> v ! i = (fst (v ! i), i)"
proof -
  assume a: "vocab_ok v" "i < length v"
  then have "map snd v ! i = i" by (simp add: vocab_ok_def)
  with a show ?thesis by (simp add: prod_eq_iff)
qed

lemma vocab_ok_lookup_lt: "vocab_ok v \<Longrightarrow> map_of v tok = Some j \<Longrightarrow> j < length v"
proof -
  assume a: "vocab_ok v" "map_of v tok = Some j"
  then have "(tok, j) \<in> set v" by (simp add: map_of_SomeD)
  then have "j \<in> set (map snd v)" by force
  with a show ?thesis by (simp add: vocab_ok_def)
qed

lemma vocab_ok_lookup_nth: "vocab_ok v \<Longrightarrow> i < length v \<Longrightarrow> map_of v (fst (v ! i)) = Some i"
proof -
  assume a: "vocab_ok v" "i < length v"
  then have "(fst (v ! i), i) \<in> set v" using vocab_ok_nth [OF a] nth_mem [of i v] by simp
  with a show ?thesis by (simp add: vocab_ok_def)
qed

lemma vocab_ok_mem: "vocab_ok v \<Longrightarrow> (t, j) \<in> set v \<Longrightarrow> j < length v \<and> t = fst (v ! j)"
proof -
  assume a: "vocab_ok v" "(t, j) \<in> set v"
  then obtain i where i: "i < length v" "v ! i = (t, j)" by (auto simp: in_set_conv_nth)
  with vocab_ok_nth [OF a(1) i(1)] have "i = j" by simp
  with i show ?thesis by simp
qed

lemma vocab_ok_inj:
  assumes "vocab_ok v" "map_of v t1 = Some j" "map_of v t2 = Some j"
  shows "t1 = t2"
proof -
  have "(t1, j) \<in> set v" "(t2, j) \<in> set v" using assms by (simp_all add: map_of_SomeD)
  then show ?thesis using vocab_ok_mem [OF assms(1)] by metis
qed

lemma np_set_length: "np_set v j x = Inr v' \<Longrightarrow> length v' = length v"
  by (auto simp: np_set_def split: if_splits)

lemma hot_write:
  assumes "vocab_ok vocab" "length row = length vocab"
  shows "\<exists>row'. (case map_of vocab t of Some j \<Rightarrow> np_set row j 1 | None \<Rightarrow> Inr row) = Inr row'
           \<and> length row' = length vocab"
  using assms vocab_ok_lookup_lt [OF assms(1), of t]
  by (auto simp: np_set_def split: option.splits)

lemma item_row_loop_in_bounds:
  "vocab_ok vocab \<Longrightarrow> length row = length vocab \<Longrightarrow>
   \<exists>r. item_row_loop vocab toks row = Inr r \<and> length r = length vocab"
proof (induction toks arbitrary: row)
  case Nil
  then show ?case by simp
next
  case (Cons tok toks)
  from hot_write [OF Cons.prems, of tok] obtain row1 where
    r1: "(case map_of vocab tok of Some j \<Rightarrow> np_set row j 1 | None \<Rightarrow> Inr row) = Inr row1"
    and l1: "length row1 = length vocab" by blast
  from hot_write [OF Cons.prems(1) l1, of "ascii ''c++''"] l1 obtain row2 where
    r2: "(if tok = ascii ''arduino''
          then (case map_of vocab (ascii ''c++'') of Some jcpp \<Rightarrow> np_set row1 jcpp 1 | None \<Rightarrow> Inr row1)
          else Inr row1) = Inr row2"
    and l2: "length row2 = length vocab" by (cases "tok = ascii ''arduino''") auto
  from Cons.IH [OF Cons.prems(1) l2] show ?case
    by (simp only: item_row_loop.simps r1 r2 sum.case)
qed

lemma skills_loop_in_bounds:
  "vocab_ok vocab \<Longrightarrow> length v = length vocab \<Longrightarrow>
   \<exists>r. skills_loop vocab toks v = Inr r \<and> length r = length vocab"
proof (induction toks arbitrary: v)
  case Nil
  then show ?case by simp
next
  case (Cons tok toks)
  from hot_write [OF Cons.prems, of tok] obtain v1 where
    r1: "(case map_of vocab tok of Some j \<Rightarrow> np_set v j 1 | None \<Rightarrow> Inr v) = Inr v1"
    and l1: "length v1 = length vocab" by blast
  from hot_write [OF Cons.prems(1) l1, of "ascii ''c++''"] l1 obtain v2 where
    r2: "(if tok \<in> set query_hints
          then (case map_of vocab (ascii ''c++'') of Some jcpp \<Rightarrow> np_set v1 jcpp 1 | None \<Rightarrow> Inr v1)
          else Inr v1) = Inr v2"
    and l2: "length v2 = length vocab" by (cases "tok \<in> set query_hints") auto
  from Cons.IH [OF Cons.prems(1) l2] show ?case
    by (simp only: skills_loop.simps r1 r2 sum.case)
qed

lemma py_get_no_IndexError: "py_get obj k d \<noteq> Inl IndexError"
  by (simp add: py_get_def split: json.splits)

lemma py_int_no_IndexError: "py_int lib v \<noteq> Inl IndexError"
  by (simp add: py_int_def split: json.splits option.splits)

lemma py_float_no_IndexError: "py_float lib v \<noteq> Inl IndexError"
  by (simp add: py_float_def split: json.splits option.splits)

lemma norm_list_no_IndexError: "norm_list lib v \<noteq> Inl IndexError"
  by (simp add: norm_list_def iter_or_empty_def split: json.splits sum.splits)

lemma item_popularity_no_IndexError: "item_popularity lib obj \<noteq> Inl IndexError"
  using py_get_no_IndexError py_float_no_IndexError
  by (auto simp: item_popularity_def split: sum.splits)

lemma one_hot_item_in_bounds:
  assumes "vocab_ok vocab"
  shows "one_hot_item lib vocab obj \<noteq> Inl IndexError"
proof
  assume e: "one_hot_item lib vocab obj = Inl IndexError"
  have row: "item_row_loop vocab toks (replicate (length vocab) 0) \<noteq> Inl IndexError" for toks
    using item_row_loop_in_bounds [OF assms, where row = "replicate (length vocab) 0" and toks = toks]
    by auto
  from e show False
    using py_get_no_IndexError py_int_no_IndexError item_popularity_no_IndexError
      norm_list_no_IndexError row
    by (auto simp: one_hot_item_def split: sum.splits)
qed

lemma one_hot_loop_in_bounds:
  "vocab_ok vocab \<Longrightarrow> one_hot_loop lib vocab objs \<noteq> Inl IndexError"
  by (induction objs) (auto simp: one_hot_item_in_bounds split: sum.splits)

lemma one_hot_matrix_in_bounds:
  "vocab_ok vocab \<Longrightarrow> one_hot_matrix lib objs vocab \<noteq> Inl IndexError"
  using one_hot_loop_in_bounds [of vocab lib objs]
  by (auto simp: one_hot_matrix_def split: sum.splits)

lemma skills_to_vec_in_bounds:
  "vocab_ok vocab \<Longrightarrow> skills_to_vec lib sk vocab \<noteq> Inl IndexError"
proof -
  assume ok: "vocab_ok vocab"
  have "skills_loop vocab toks (replicate (length vocab) 0) \<noteq> Inl IndexError" for toks
    using skills_loop_in_bounds [OF ok, where v = "replicate (length vocab) 0" and toks = toks]
    by auto
  then show ?thesis
    using norm_list_no_IndexError by (auto simp: skills_to_vec_def split: sum.splits)
qed

lemmas eval_defs = build_vocab_def py_get_def norm_list_def iter_or_empty_def norm_token_def
  cpython_frag_def strip_def replace_yo_def isspace_def lower_frag_def synonyms_def ascii_def
  one_hot_matrix_def one_hot_item_def item_popularity_def py_int_def py_float_def np_set_def
  skills_to_vec_def query_hints_def digits_value_def

text \<open>
  C10: the vocabulary built from a list of catalog objects has distinct tokens and the
  indices \<open>0, \<dots>, n - 1\<close> in insertion order, so the lookup is injective and onto
  \<open>{0..<n}\<close>; every index it returns is below the vector length \<open>n\<close>, and neither the
  item vectorization nor the query vectorization ever writes out of bounds (an
  out-of-bounds write is \<open>IndexError\<close> in the model).
\<close>

theorem build_vocab_indices_in_bounds:
  assumes "build_vocab lib objs = Inr vocab"
  shows "distinct (map fst vocab) \<and> map snd vocab = [0..<length vocab] \<and>
         (\<forall>tok j. map_of vocab tok = Some j \<longrightarrow> j < length vocab) \<and>
         (\<forall>t1 t2 j. map_of vocab t1 = Some j \<and> map_of vocab t2 = Some j \<longrightarrow> t1 = t2) \<and>
         (\<forall>j. j < length vocab \<longrightarrow> (\<exists>tok. map_of vocab tok = Some j)) \<and>
         one_hot_matrix lib objs vocab \<noteq> Inl IndexError \<and>
         (\<forall>sk. skills_to_vec lib sk vocab \<noteq> Inl IndexError)"
proof -
  have ok: "vocab_ok vocab" using assms by (rule build_vocab_ok)
  have "distinct (map fst vocab)" "map snd vocab = [0..<length vocab]"
    using ok by (simp_all add: vocab_ok_def)
  moreover have "\<forall>tok j. map_of vocab tok = Some j \<longrightarrow> j < length vocab"
    using vocab_ok_lookup_lt [OF ok] by blast
  moreover have "\<forall>t1 t2 j. map_of vocab t1 = Some j \<and> map_of vocab t2 = Some j \<longrightarrow> t1 = t2"
    using vocab_ok_inj [OF ok] by blast
  moreover have "\<forall>j. j < length vocab \<longrightarrow> (\<exists>tok. map_of vocab tok = Some j)"
    using vocab_ok_lookup_nth [OF ok] by blast
  moreover have "one_hot_matrix lib objs vocab \<noteq> Inl IndexError"
    using ok by (rule one_hot_matrix_in_bounds)
  moreover have "\<forall>sk. skills_to_vec lib sk vocab \<noteq> Inl IndexError"
    using skills_to_vec_in_bounds [OF ok] by blast
  ultimately show ?thesis by blast
qed

theorem build_vocab_indices_witness:
  "build_vocab cpython_frag example_catalog
     = Inr [(ascii ''python'', 0), (ascii ''c++'', 1), (ascii ''arduino'', 2)] \<and>
   one_hot_matrix cpython_frag example_catalog
       [(ascii ''python'', 0), (ascii ''c++'', 1), (ascii ''arduino'', 2)]
     = Inr ([[1, 1, 0], [0, 1, 1]], [1, 2], [10, 0]) \<and>
   one_hot_matrix cpython_frag example_catalog
       [(ascii ''python'', 0), (ascii ''c++'', 1), (ascii ''arduino'', 2)] \<noteq> Inl IndexError \<and>
   skills_to_vec cpython_frag [ascii ''codeforces'']
       [(ascii ''python'', 0), (ascii ''c++'', 1), (ascii ''arduino'', 2)] \<noteq> Inl IndexError"
proof -
  have h: "build_vocab cpython_frag example_catalog
             = Inr [(ascii ''python'', 0), (ascii ''c++'', 1), (ascii ''arduino'', 2)]"
    by (simp add: example_catalog_def eval_defs)
  have m: "one_hot_matrix cpython_frag example_catalog
             [(ascii ''python'', 0), (ascii ''c++'', 1), (ascii ''arduino'', 2)]
           = Inr ([[1, 1, 0], [0, 1, 1]], [1, 2], [10, 0])"
    by (simp add: example_catalog_def eval_defs)
  from build_vocab_indices_in_bounds [OF h] h m show ?thesis by blast
qed

section \<open>Popularity of a catalog item\<close>

text \<open>
  C7, as the spec states it, fails twice. A non-numeric, non-empty count is not replaced by
  0: \<^verbatim>\<open>{"id": 1, "member_count": "many"}\<close> makes \<^verbatim>\<open>float\<close> raise \<^verbatim>\<open>ValueError\<close>. And
  nothing clamps the count: \<^verbatim>\<open>{"id": 2, "member_count": -3}\<close> has popularity \<open>-3\<close>.
\<close>

theorem item_popularity_counterexample:
  "item_popularity cpython_frag
     (JObj [(ascii ''id'', JInt 1), (ascii ''member_count'', JStr (ascii ''many''))])
     = Inl ValueError \<and>
   item_popularity cpython_frag
     (JObj [(ascii ''id'', JInt 2), (ascii ''member_count'', JInt (- 3))])
     = Inr (- 3)"
  by (simp add: eval_defs)

text \<open>
  C7, amended. The count found, \<open>v\<close>, is the value under \<^verbatim>\<open>member_count\<close> when that key is
  present, else the value under \<^verbatim>\<open>like_count\<close> when that key is present, else 0; the
  popularity is \<^verbatim>\<open>float(v or 0)\<close>. So it is 0 when both keys are absent and when \<open>v\<close> is
  falsy (\<^verbatim>\<open>null\<close>, \<^verbatim>\<open>false\<close>, \<^verbatim>\<open>0\<close>, \<^verbatim>\<open>0.0\<close>, \<^verbatim>\<open>""\<close>, \<^verbatim>\<open>[]\<close>, \<^verbatim>\<open>{}\<close>); it is the number
  itself when \<open>v\<close> is an integer or a float, and 1 when \<open>v\<close> is \<^verbatim>\<open>true\<close>; a non-empty string
  is handed to \<^verbatim>\<open>float\<close>, which gives its value or raises \<^verbatim>\<open>ValueError\<close>; a non-empty
  list or object raises \<^verbatim>\<open>TypeError\<close>. Nothing is clamped: the popularity is non-negative
  when \<open>v\<close> is falsy, a boolean or a non-negative number, and negative when \<open>v\<close> is a
  negative number.
\<close>

theorem item_popularity_amended:
  assumes "map_of kvs (ascii ''member_count'') = Some v \<or>
           (map_of kvs (ascii ''member_count'') = None \<and>
            map_of kvs (ascii ''like_count'') = Some v) \<or>
           (map_of kvs (ascii ''member_count'') = None \<and>
            map_of kvs (ascii ''like_count'') = None \<and> v = JInt 0)"
  shows "(\<not> truthy v \<longrightarrow> item_popularity lib (JObj kvs) = Inr 0) \<and>
         (v = JNull \<or> v = JBool False \<or> v = JInt 0 \<or> v = JFloat 0 \<or> v = JStr [] \<or>
          v = JList [] \<or> v = JObj [] \<longrightarrow> item_popularity lib (JObj kvs) = Inr 0) \<and>
         (\<forall>n. v = JInt n \<longrightarrow> item_popularity lib (JObj kvs) = Inr (real_of_int n)) \<and>
         (\<forall>r. v = JFloat r \<longrightarrow> item_popularity lib (JObj kvs) = Inr r) \<and>
         (v = JBool True \<longrightarrow> item_popularity lib (JObj kvs) = Inr 1) \<and>
         (\<forall>s r. v = JStr s \<and> s \<noteq> [] \<and> float_of_str lib s = Some r \<longrightarrow>
            item_popularity lib (JObj kvs) = Inr r) \<and>
         (\<forall>s. v = JStr s \<and> s \<noteq> [] \<and> float_of_str lib s = None \<longrightarrow>
            item_popularity lib (JObj kvs) = Inl ValueError) \<and>
         (\<forall>xs. v = JList xs \<and> xs \<noteq> [] \<longrightarrow> item_popularity lib (JObj kvs) = Inl TypeError) \<and>
         (\<forall>ys. v = JObj ys \<and> ys \<noteq> [] \<longrightarrow> item_popularity lib (JObj kvs) = Inl TypeError) \<and>
         (\<not> truthy v \<or> (\<exists>b. v = JBool b) \<or> (\<exists>n. v = JInt n \<and> 0 \<le> n) \<or>
          (\<exists>r. v = JFloat r \<and> 0 \<le> r) \<longrightarrow>
            (\<exists>p. item_popularity lib (JObj kvs) = Inr p \<and> 0 \<le> p)) \<and>
         ((\<exists>n. v = JInt n \<and> n < 0) \<or> (\<exists>r. v = JFloat r \<and> r < 0) \<longrightarrow>
            (\<exists>p. item_popularity lib (JObj kvs) = Inr p \<and> p < 0))"
proof -
  have p: "item_popularity lib (JObj kvs) = py_float lib (if truthy v then v else JInt 0)"
    using assms by (auto simp: item_popularity_def py_get_def)
  show ?thesis unfolding p by (cases v) (auto simp: py_float_def)
qed

theorem item_popularity_witness:
  "map_of [(ascii ''id'', JInt 5), (ascii ''like_count'', JInt 7)] (ascii ''member_count'') = None \<and>
   map_of [(ascii ''id'', JInt 5), (ascii ''like_count'', JInt 7)] (ascii ''like_count'')
     = Some (JInt 7) \<and>
   item_popularity cpython_frag (JObj [(ascii ''id'', JInt 5), (ascii ''like_count'', JInt 7)])
     = Inr 7 \<and>
   map_of [(ascii ''member_count'', JStr []), (ascii ''like_count'', JInt 7)] (ascii ''member_count'')
     = Some (JStr []) \<and>
   item_popularity cpython_frag (JObj [(ascii ''member_count'', JStr []), (ascii ''like_count'', JInt 7)])
     = Inr 0 \<and>
   map_of [(ascii ''member_count'', JStr (ascii ''12''))] (ascii ''member_count'')
     = Some (JStr (ascii ''12'')) \<and>
   float_of_str cpython_frag (ascii ''12'') = Some 12 \<and>
   item_popularity cpython_frag (JObj [(ascii ''member_count'', JStr (ascii ''12''))]) = Inr 12 \<and>
   map_of [(ascii ''member_count'', JList [JInt 3])] (ascii ''member_count'')
     = Some (JList [JInt 3]) \<and>
   item_popularity cpython_frag (JObj [(ascii ''member_count'', JList [JInt 3])]) = Inl TypeError"
proof -
  have m1: "map_of [(ascii ''id'', JInt 5), (ascii ''like_count'', JInt 7)] (ascii ''member_count'')
              = None"
    and l1: "map_of [(ascii ''id'', JInt 5), (ascii ''like_count'', JInt 7)] (ascii ''like_count'')
              = Some (JInt 7)"
    and m2: "map_of [(ascii ''member_count'', JStr []), (ascii ''like_count'', JInt 7)]
               (ascii ''member_count'') = Some (JStr [])"
    and m3: "map_of [(ascii ''member_count'', JStr (ascii ''12''))] (ascii ''member_count'')
              = Some (JStr (ascii ''12''))"
    and m4: "map_of [(ascii ''member_count'', JList [JInt 3])] (ascii ''member_count'')
              = Some (JList [JInt 3])"
    by (simp_all add: ascii_def)
  have f: "float_of_str cpython_frag (ascii ''12'') = Some 12"
    by (simp add: cpython_frag_def digits_value_def ascii_def)
  have n: "ascii ''12'' \<noteq> []" by (simp add: ascii_def)
  note t1 = item_popularity_amended [of "[(ascii ''id'', JInt 5), (ascii ''like_count'', JInt 7)]"
      "JInt 7" cpython_frag, OF disjI2, OF disjI1, OF conjI [OF m1 l1]]
  note t2 = item_popularity_amended [of "[(ascii ''member_count'', JStr []), (ascii ''like_count'', JInt 7)]"
      "JStr []" cpython_frag, OF disjI1, OF m2]
  note t3 = item_popularity_amended [of "[(ascii ''member_count'', JStr (ascii ''12''))]"
      "JStr (ascii ''12'')" cpython_frag, OF disjI1, OF m3]
  note t4 = item_popularity_amended [of "[(ascii ''member_count'', JList [JInt 3])]"
      "JList [JInt 3]" cpython_frag, OF disjI1, OF m4]
  have r1: "item_popularity cpython_frag (JObj [(ascii ''id'', JInt 5), (ascii ''like_count'', JInt 7)])
              = Inr 7"
    using t1 by simp
  have r2: "item_popularity cpython_frag
              (JObj [(ascii ''member_count'', JStr []), (ascii ''like_count'', JInt 7)]) = Inr 0"
    using t2 by simp
  have r3: "item_popularity cpython_frag (JObj [(ascii ''member_count'', JStr (ascii ''12''))]) = Inr 12"
    using t3 f n by blast
  have r4: "item_popularity cpython_frag (JObj [(ascii ''member_count'', JList [JInt 3])])
              = Inl TypeError"
    using t4 by simp
  from m1 l1 r1 m2 r2 m3 f r3 m4 r4 show ?thesis by (intro conjI)
qed
section \<open>The classifier\<close>

lemma sigmoid_zero: "sigmoid 0 = 1 / 2"
  by (simp add: sigmoid_def)

lemma insort_key_stable_wrt:
  assumes "sorted_wrt (\<lambda>a b. f a < f b \<or> (f a = f b \<and> Q a b)) ys" "\<forall>y\<in>set ys. Q x y"
  shows "sorted_wrt (\<lambda>a b. f a < f b \<or> (f a = f b \<and> Q a b)) (insort_key f x ys)"
  using assms
proof (induction ys)
  case Nil
  then show ?case by simp
next
  case (Cons y ys)
  show ?case
  proof (cases "f x \<le> f y")
    case True
    then show ?thesis using Cons.prems by (auto simp: set_insort_key) 
  next
    case False
    then show ?thesis using Cons by (auto simp: set_insort_key)
  qed
qed

lemma sort_key_stable_wrt:
  "sorted_wrt Q xs \<Longrightarrow> sorted_wrt (\<lambda>a b. f a < f b \<or> (f a = f b \<and> Q a b)) (sort_key f xs)"
proof (induction xs)
  case Nil
  then show ?case by simp
next
  case (Cons x xs)
  then show ?case
    using insort_key_stable_wrt [of f Q "sort_key f xs" x] by simp
qed


subsection \<open>NumPy's quicksort on short inputs\<close>













subsection \<open>Selection and ordering\<close>








lemma load_artifacts_again:
  assumes "load_artifacts fs st0 = (Inr (), st)"
  shows "\<exists>st'. load_artifacts fs st = (Inr (), st') \<and> PIPE st' = PIPE st \<and> LABELS st' = LABELS st \<and>
           THRESHOLDS st' = THRESHOLDS st \<and> decision_calls st' = decision_calls st"
  using assms
  by (auto simp: load_artifacts_def Let_def split: if_splits option.splits)

lemma ensure_loaded_after_load:
  assumes "load_artifacts fs st0 = (Inr (), st)"
  shows "\<exists>st'. ensure_loaded fs st = (Inr (), st') \<and> PIPE st' = PIPE st \<and> LABELS st' = LABELS st \<and>
           THRESHOLDS st' = THRESHOLDS st \<and> decision_calls st' = decision_calls st"
  using load_artifacts_again [OF assms] by (auto simp: ensure_loaded_def)

lemma predict_labels_unfold:
  assumes "ensure_loaded fs st = (Inr (), st1)" "PIPE st1 = Some pipe"
    and "normalize_text lib (if truthy d then d else JStr []) = text" "text \<noteq> []"
  shows "fst (predict_labels cfg lib fs st d)
           = select_labels lib (LABELS st1) (map sigmoid (pipe text)) (thresholds_in_use cfg st1)"
  using assms by (simp add: predict_labels_def Let_def thresholds_in_use_def cong: option.case_cong)

lemma sigmoid_ge_half: "1 / 2 \<le> sigmoid x \<longleftrightarrow> 0 \<le> x"
proof -
  have "1 / 2 \<le> 1 / (1 + exp (- x)) \<longleftrightarrow> 1 + exp (- x) \<le> 2"
    by (simp add: field_simps add_pos_pos)
  also have "\<dots> \<longleftrightarrow> exp (- x) \<le> exp 0" by simp
  also have "\<dots> \<longleftrightarrow> 0 \<le> x" by (simp only: exp_le_cancel_iff) simp
  finally show ?thesis by (simp add: sigmoid_def)
qed

lemma sigmoid_le_half: "sigmoid x \<le> 1 / 2 \<longleftrightarrow> x \<le> 0"
proof -
  have "1 / (1 + exp (- x)) \<le> 1 / 2 \<longleftrightarrow> 2 \<le> 1 + exp (- x)"
    by (simp add: field_simps add_pos_pos)
  also have "\<dots> \<longleftrightarrow> exp 0 \<le> exp (- x)" by simp
  also have "\<dots> \<longleftrightarrow> x \<le> 0" by (simp only: exp_le_cancel_iff) simp
  finally show ?thesis by (simp add: sigmoid_def)
qed

lemma sigmoid_twice_le: "sigmoid x * 2 \<le> 1 \<longleftrightarrow> x \<le> 0"
  using sigmoid_le_half [of x] by simp

lemma sigmoid_twice_ge: "1 \<le> sigmoid x * 2 \<longleftrightarrow> 0 \<le> x"
  using sigmoid_ge_half [of x] by simp

lemma sigmoid_twice_eq: "sigmoid x * 2 = 1 \<longleftrightarrow> x = 0"
  using sigmoid_twice_le [of x] sigmoid_twice_ge [of x] by linarith


lemmas ml_eval = predict_labels_def ensure_loaded_def load_artifacts_def initial_ml_state_def
  normalize_text_def cpython_frag_def strip_def replace_yo_def isspace_def ascii_def
  thresholds_in_use_def default_config_def select_labels_def select_indices_def np_ge_def
  np_where_def np_take_def argsort_stable_def Let_def






text \<open>
  C6: when \<^verbatim>\<open>thresholds.npy\<close> is present and its length differs from the number of
  labels, \<^verbatim>\<open>load_artifacts\<close> succeeds, prints the warning, leaves \<^verbatim>\<open>THRESHOLDS\<close> at
  \<^verbatim>\<open>None\<close>, and every later prediction selects with the uniform default threshold for
  all labels: the supplied vector is never applied.
\<close>

theorem thresholds_mismatch_falls_back:
  assumes "model_file fs = Some pipe" "labels_file fs = Some labels"
    and "thresholds_file fs = Some thr" "length thr \<noteq> length labels"
  shows "\<exists>st'. load_artifacts fs st = (Inr (), st') \<and>
           PIPE st' = Some pipe \<and> LABELS st' = labels \<and> THRESHOLDS st' = None \<and>
           stdout st' = stdout st @ [InfoArtifactsDir, WarnThresholdsIgnored] \<and>
           thresholds_in_use cfg st' = replicate (length labels) (DEFAULT_THR cfg) \<and>
           (\<forall>d. fst (predict_labels cfg lib fs st' d) =
                 (let text = normalize_text lib (if truthy d then d else JStr [])
                  in if text = [] then Inr []
                     else select_labels lib labels (map sigmoid (pipe text))
                            (replicate (length labels) (DEFAULT_THR cfg))))"
proof -
  define st' where "st' = st\<lparr>PIPE := Some pipe, LABELS := labels, THRESHOLDS := None,
                         stdout := stdout st @ [InfoArtifactsDir, WarnThresholdsIgnored]\<rparr>"
  have l: "load_artifacts fs st = (Inr (), st')"
    using assms by (simp add: load_artifacts_def Let_def st'_def)
  from ensure_loaded_after_load [OF l] obtain st1 where
    e: "ensure_loaded fs st' = (Inr (), st1)" and p1: "PIPE st1 = PIPE st'"
    and l1: "LABELS st1 = LABELS st'" and t1: "THRESHOLDS st1 = THRESHOLDS st'" by blast
  have thr1: "thresholds_in_use cfg st1 = replicate (length labels) (DEFAULT_THR cfg)"
    by (simp add: thresholds_in_use_def l1 t1 st'_def)
  have "fst (predict_labels cfg lib fs st' d) =
          (let text = normalize_text lib (if truthy d then d else JStr [])
           in if text = [] then Inr []
              else select_labels lib labels (map sigmoid (pipe text))
                     (replicate (length labels) (DEFAULT_THR cfg)))" for d
  proof (cases "normalize_text lib (if truthy d then d else JStr []) = []")
    case True
    then show ?thesis by (simp add: predict_labels_def e)
  next
    case False
    have "PIPE st1 = Some pipe" by (simp add: p1 st'_def)
    from predict_labels_unfold [OF e this refl False, of cfg] False show ?thesis
      by (simp add: thr1 l1 st'_def)
  qed
  with l show ?thesis by (intro exI [of _ st']) (simp add: st'_def thresholds_in_use_def)
qed

theorem thresholds_mismatch_witness:
  "model_file misaligned_artifacts = Some (\<lambda>text. [2, 0, - 2]) \<and>
   labels_file misaligned_artifacts = Some [ascii ''a'', ascii ''b'', ascii ''c''] \<and>
   thresholds_file misaligned_artifacts = Some [9 / 10, 9 / 10] \<and>
   length [9 / 10, 9 / 10 :: real] \<noteq> length [ascii ''a'', ascii ''b'', ascii ''c''] \<and>
   fst (load_artifacts misaligned_artifacts initial_ml_state) = Inr () \<and>
   THRESHOLDS (loaded misaligned_artifacts) = None \<and>
   stdout (loaded misaligned_artifacts) = [InfoArtifactsDir, WarnThresholdsIgnored] \<and>
   thresholds_in_use default_config (loaded misaligned_artifacts) = [1 / 2, 1 / 2, 1 / 2] \<and>
   fst (predict_labels default_config cpython_frag misaligned_artifacts
          (loaded misaligned_artifacts) (JStr (ascii ''x''))) = Inr [ascii ''a'', ascii ''b'']"
proof -
  have h: "model_file misaligned_artifacts = Some (\<lambda>text. [2, 0, - 2])"
    "labels_file misaligned_artifacts = Some [ascii ''a'', ascii ''b'', ascii ''c'']"
    "thresholds_file misaligned_artifacts = Some [9 / 10, 9 / 10]"
    "length [9 / 10, 9 / 10 :: real] \<noteq> length [ascii ''a'', ascii ''b'', ascii ''c'']"
    by (simp_all add: misaligned_artifacts_def)
  from thresholds_mismatch_falls_back [OF h, of initial_ml_state default_config cpython_frag]
  obtain st' where
    l: "load_artifacts misaligned_artifacts initial_ml_state = (Inr (), st')"
    and t: "THRESHOLDS st' = None"
    and o: "stdout st' = stdout initial_ml_state @ [InfoArtifactsDir, WarnThresholdsIgnored]"
    and u: "thresholds_in_use default_config st' = replicate (length [ascii ''a'', ascii ''b'', ascii ''c'']) (DEFAULT_THR default_config)"
    by (elim exE conjE)
  have st': "loaded misaligned_artifacts = st'" by (simp add: loaded_def l)
  have e: "fst (predict_labels default_config cpython_frag misaligned_artifacts
          (loaded misaligned_artifacts) (JStr (ascii ''x''))) = Inr [ascii ''a'', ascii ''b'']"
    by (simp add: ml_eval misaligned_artifacts_def loaded_def sigmoid_zero
        sigmoid_twice_le sigmoid_twice_ge sigmoid_twice_eq)
  have u': "thresholds_in_use default_config st' = [1 / 2, 1 / 2, 1 / 2]"
    using u by (simp add: default_config_def numeral_3_eq_3)
  from h l t o u' e show ?thesis by (simp add: st' initial_ml_state_def)
qed

text \<open>
  C8, as the spec states it, fails: the lazy load runs before the text is looked at, so with
  the artifacts missing \<^verbatim>\<open>predict_labels(None)\<close> and \<^verbatim>\<open>predict_labels("")\<close> raise
  \<^verbatim>\<open>FileNotFoundError\<close> instead of returning the empty list.
\<close>

theorem predict_labels_empty_text_missing_artifacts:
  "normalize_text cpython_frag (if truthy JNull then JNull else JStr []) = [] \<and>
   fst (predict_labels default_config cpython_frag no_artifacts initial_ml_state JNull)
     = Inl (FileNotFoundError [ascii ''tfidf_logreg_ovr.joblib'', ascii ''labels.json'']) \<and>
   fst (predict_labels default_config cpython_frag no_artifacts initial_ml_state (JStr []))
     = Inl (FileNotFoundError [ascii ''tfidf_logreg_ovr.joblib'', ascii ''labels.json''])"
  by (simp add: ml_eval no_artifacts_def)

text \<open>
  C8, amended: when the artifacts are already loaded or the lazy load succeeds, a description
  that normalizes to the empty string (\<^verbatim>\<open>None\<close> and \<^verbatim>\<open>""\<close> among them) gives the empty
  list, and the decision function is not called.
\<close>

theorem predict_labels_empty_text_short_circuit:
  assumes "fst (ensure_loaded fs st) = Inr ()"
  shows "(normalize_text lib (if truthy d then d else JStr []) = [] \<longrightarrow>
            fst (predict_labels cfg lib fs st d) = Inr [] \<and>
            decision_calls (snd (predict_labels cfg lib fs st d)) = decision_calls st) \<and>
         (nfc lib [] = [] \<longrightarrow>
            fst (predict_labels cfg lib fs st JNull) = Inr [] \<and>
            decision_calls (snd (predict_labels cfg lib fs st JNull)) = decision_calls st \<and>
            fst (predict_labels cfg lib fs st (JStr [])) = Inr [] \<and>
            decision_calls (snd (predict_labels cfg lib fs st (JStr []))) = decision_calls st)"
proof -
  obtain st1 where e: "ensure_loaded fs st = (Inr (), st1)"
    using assms by (cases "ensure_loaded fs st") auto
  have c: "decision_calls st1 = decision_calls st"
    using e by (auto simp: ensure_loaded_def load_artifacts_def Let_def split: if_splits option.splits)
  have g: "fst (predict_labels cfg lib fs st d') = Inr [] \<and>
           decision_calls (snd (predict_labels cfg lib fs st d')) = decision_calls st"
    if "normalize_text lib (if truthy d' then d' else JStr []) = []" for d'
    using that by (simp add: predict_labels_def e c)
  have "normalize_text lib (JStr []) = []" if "nfc lib [] = []"
    using that by (simp add: normalize_text_def strip_def replace_yo_def)
  then show ?thesis using g [of d] g [of JNull] g [of "JStr []"] by simp
qed

theorem predict_labels_empty_text_witness:
  "fst (ensure_loaded three_label_artifacts initial_ml_state) = Inr () \<and>
   nfc cpython_frag [] = [] \<and>
   fst (predict_labels default_config cpython_frag three_label_artifacts initial_ml_state JNull) = Inr [] \<and>
   decision_calls (snd (predict_labels default_config cpython_frag three_label_artifacts
                          initial_ml_state JNull)) = decision_calls initial_ml_state"
proof -
  have h: "fst (ensure_loaded three_label_artifacts initial_ml_state) = Inr ()"
    by (simp add: ensure_loaded_def load_artifacts_def initial_ml_state_def three_label_artifacts_def Let_def)
  have n: "nfc cpython_frag [] = []" by (simp add: cpython_frag_def)
  from predict_labels_empty_text_short_circuit [OF h, of cpython_frag JNull default_config] h n
  show ?thesis by simp
qed

section \<open>The paginated fetch\<close>

lemma loop_full_step:
  assumes "full_page cfg (srv k ep skip (MP_API_PAGE_LIMIT cfg))"
  shows "get_all_loop srv ep (MP_API_PAGE_LIMIT cfg) k skip acc sent =
         get_all_loop srv ep (MP_API_PAGE_LIMIT cfg) (Suc k) (skip + MP_API_PAGE_LIMIT cfg)
           (acc @ page_items (srv k ep skip (MP_API_PAGE_LIMIT cfg)))
           (sent @ [(skip, MP_API_PAGE_LIMIT cfg)])"
  using assms
  by (subst get_all_loop.simps)
     (auto simp: full_page_def page_items_def split: response.splits sum.splits json.splits)

lemma loop_run:
  assumes "\<forall>j<n. full_page cfg (page_reply cfg srv ep j)"
  shows "get_all_loop srv ep (MP_API_PAGE_LIMIT cfg) 0 0 [] [] =
         get_all_loop srv ep (MP_API_PAGE_LIMIT cfg) n (int n * MP_API_PAGE_LIMIT cfg)
           (concat (map (\<lambda>j. page_items (page_reply cfg srv ep j)) [0..<n]))
           (map (\<lambda>j. (int j * MP_API_PAGE_LIMIT cfg, MP_API_PAGE_LIMIT cfg)) [0..<n])"
  using assms
proof (induction n)
  case 0
  then show ?case by simp
next
  case (Suc n)
  have f: "full_page cfg (srv n ep (int n * MP_API_PAGE_LIMIT cfg) (MP_API_PAGE_LIMIT cfg))"
    using Suc.prems by (simp add: page_reply_def)
  have sk: "int n * MP_API_PAGE_LIMIT cfg + MP_API_PAGE_LIMIT cfg = int (Suc n) * MP_API_PAGE_LIMIT cfg"
    by (simp add: algebra_simps)
  note step = loop_full_step [where cfg = cfg and srv = srv and k = n and ep = ep
      and skip = "int n * MP_API_PAGE_LIMIT cfg", OF f]
  have "get_all_loop srv ep (MP_API_PAGE_LIMIT cfg) 0 0 [] [] =
         get_all_loop srv ep (MP_API_PAGE_LIMIT cfg) n (int n * MP_API_PAGE_LIMIT cfg)
           (concat (map (\<lambda>j. page_items (page_reply cfg srv ep j)) [0..<n]))
           (map (\<lambda>j. (int j * MP_API_PAGE_LIMIT cfg, MP_API_PAGE_LIMIT cfg)) [0..<n])"
    using Suc by simp
  also note step
  finally show ?case by (simp only: sk upt_Suc_append [OF le0] map_append concat_append
        list.map concat.simps append_Nil2 page_reply_def)
qed

lemma loop_returns_short_page:
  assumes "get_all_loop srv ep plimit k skip acc sent = Some y"
  shows "plimit = MP_API_PAGE_LIMIT cfg \<longrightarrow> skip = int k * plimit \<longrightarrow>
     (\<exists>j. \<not> full_page cfg (page_reply cfg srv ep (k + j)))"
proof (induct srv ep plimit k skip acc sent y rule: get_all_loop.raw_induct)
  case (1 loop srv ep plimit k skip acc sent y)
  show ?case
  proof (intro impI)
    assume L: "plimit = MP_API_PAGE_LIMIT cfg" and sk: "skip = int k * plimit"
    show "\<exists>j. \<not> full_page cfg (page_reply cfg srv ep (k + j))"
    proof (cases "full_page cfg (page_reply cfg srv ep k)")
      case False
      then show ?thesis by (intro exI [of _ 0]) simp
    next
      case True
      then obtain tx xs where r: "srv k ep skip plimit = Response 200 tx (Inr (JList xs))"
        and len: "plimit \<le> int (length xs)"
        using L sk
        by (auto simp: full_page_def page_reply_def split: response.splits sum.splits json.splits)
      from 1(2) r len
      have eq: "loop srv ep plimit (Suc k) (skip + plimit) (acc @ xs) (sent @ [(skip, plimit)]) = Some y"
        by simp
      have "plimit = MP_API_PAGE_LIMIT cfg \<longrightarrow> skip + plimit = int (Suc k) * plimit \<longrightarrow>
              (\<exists>j. \<not> full_page cfg (page_reply cfg srv ep (Suc k + j)))"
        by (rule 1(1) [OF eq])
      moreover have "skip + plimit = int (Suc k) * plimit" using sk by (simp add: algebra_simps)
      ultimately obtain j where "\<not> full_page cfg (page_reply cfg srv ep (Suc k + j))"
        using L by blast
      then show ?thesis by (intro exI [of _ "Suc j"]) simp
    qed
  qed
qed (fact assms)

lemma get_all_diverges:
  assumes "\<forall>j. full_page cfg (page_reply cfg srv ep j)"
  shows "get_all cfg srv ep = None"
proof (cases "get_all cfg srv ep")
  case (Some y)
  then show ?thesis
    using loop_returns_short_page [of srv ep "MP_API_PAGE_LIMIT cfg" 0 0 "[]" "[]" y cfg] assms
    by (simp add: get_all_def)
qed simp


lemma loop_stop:
  assumes "\<not> full_page cfg (srv k ep skip (MP_API_PAGE_LIMIT cfg))"
  shows "get_all_loop srv ep (MP_API_PAGE_LIMIT cfg) k skip acc sent =
           Some (case srv k ep skip (MP_API_PAGE_LIMIT cfg) of
                   NoResponse msg \<Rightarrow> Inl (ClientError msg)
                 | Response st tx body \<Rightarrow>
                     if st \<noteq> 200 then Inl (HTTPException st (ascii ''API error: '' @ tx))
                     else (case body of
                             Inl msg \<Rightarrow> Inl (HTTPException 500 (ascii ''Invalid json from API: '' @ msg))
                           | Inr page \<Rightarrow> (case page of JList xs \<Rightarrow> Inr (acc @ xs) | _ \<Rightarrow> Inr acc)),
                 sent @ [(skip, MP_API_PAGE_LIMIT cfg)])"
  using assms
  by (subst get_all_loop.simps)
     (auto simp: full_page_def split: response.splits sum.splits json.splits)

lemma api_error_neq_invalid_json:
  "ascii ''API error: '' @ a \<noteq> ascii ''Invalid json from API: '' @ b"
  by (simp add: ascii_def)

text \<open>
  C5, as the spec states it, fails in its "only if": the fetch fails with the status and
  the body also when a page request returns a success status other than 200. Line 173
  tests \<^verbatim>\<open>resp.status != 200\<close>, so an answer with status 204 raises
  \<^verbatim>\<open>HTTPException(status_code=204, detail="API error: ")\<close> although no page request
  returned a non-success status.
\<close>

theorem get_all_success_status_counterexample:
  "get_all default_config no_content_upstream (ascii ''communities/'')
     = Some (Inl (HTTPException 204 (ascii ''API error: '')), [(0, 100)])"
  by (simp add: get_all_def get_all_loop.simps no_content_upstream_def default_config_def)

text \<open>
  C5, amended (a status other than 200 in place of a non-success status):
  \<^verbatim>\<open>_get_all\<close> sends its page requests at the offsets \<open>0, limit, 2 * limit, \<dots>\<close>
  (increasing for a positive limit), always with the same limit, and appends the pages in
  order. If request \<open>n\<close> is the first whose answer is not a full page, the fetch returns
  after exactly \<open>n + 1\<close> requests: with the accumulated items when that answer has status
  200 and a decoded body that is a short list (its items appended) or is not a list; with
  \<^verbatim>\<open>HTTPException(status, "API error: " + body)\<close> exactly when its status is not 200
  (the code's test for success); with the invalid-json error when decoding fails. If every
  answer is a full page the fetch never returns.
\<close>

theorem get_all_pagination:
  "((\<forall>j<n. full_page cfg (page_reply cfg srv ep j)) \<and> \<not> full_page cfg (page_reply cfg srv ep n) \<longrightarrow>
      (\<exists>res. get_all cfg srv ep
               = Some (res, map (\<lambda>j. (int j * MP_API_PAGE_LIMIT cfg, MP_API_PAGE_LIMIT cfg)) [0..<Suc n]) \<and>
         (\<forall>st tx body. page_reply cfg srv ep n = Response st tx body \<and> st \<noteq> 200 \<longrightarrow>
            res = Inl (HTTPException st (ascii ''API error: '' @ tx))) \<and>
         (\<forall>tx xs. page_reply cfg srv ep n = Response 200 tx (Inr (JList xs)) \<longrightarrow>
            int (length xs) < MP_API_PAGE_LIMIT cfg \<and>
            res = Inr (concat (map (\<lambda>j. page_items (page_reply cfg srv ep j)) [0..<n]) @ xs)) \<and>
         (\<forall>tx v. page_reply cfg srv ep n = Response 200 tx (Inr v) \<and> (\<forall>xs. v \<noteq> JList xs) \<longrightarrow>
            res = Inr (concat (map (\<lambda>j. page_items (page_reply cfg srv ep j)) [0..<n]))) \<and>
         (\<forall>tx msg. page_reply cfg srv ep n = Response 200 tx (Inl msg) \<longrightarrow>
            res = Inl (HTTPException 500 (ascii ''Invalid json from API: '' @ msg))) \<and>
         (\<forall>msg. page_reply cfg srv ep n = NoResponse msg \<longrightarrow> res = Inl (ClientError msg)) \<and>
         ((\<exists>xs. res = Inr xs) \<longleftrightarrow> (\<exists>tx v. page_reply cfg srv ep n = Response 200 tx (Inr v))) \<and>
         ((\<exists>st tx. res = Inl (HTTPException st (ascii ''API error: '' @ tx))) \<longleftrightarrow>
            (\<exists>st tx body. page_reply cfg srv ep n = Response st tx body \<and> st \<noteq> 200)))) \<and>
   ((\<forall>j. full_page cfg (page_reply cfg srv ep j)) \<longrightarrow> get_all cfg srv ep = None) \<and>
   (0 < MP_API_PAGE_LIMIT cfg \<longrightarrow>
      sorted_wrt (<) (map (\<lambda>j. int j * MP_API_PAGE_LIMIT cfg) [0..<Suc n]))"
proof (intro conjI impI)
  assume "\<forall>j. full_page cfg (page_reply cfg srv ep j)"
  then show "get_all cfg srv ep = None" by (rule get_all_diverges)
next
  assume "0 < MP_API_PAGE_LIMIT cfg"
  then have "sorted_wrt (\<lambda>x y. int x * MP_API_PAGE_LIMIT cfg < int y * MP_API_PAGE_LIMIT cfg) [0..<Suc n]"
    by (intro sorted_wrt_mono_rel [OF _ sorted_wrt_upt [of 0 "Suc n"]]) simp
  then show "sorted_wrt (<) (map (\<lambda>j. int j * MP_API_PAGE_LIMIT cfg) [0..<Suc n])"
    by (simp only: sorted_wrt_map)
next
  assume a: "(\<forall>j<n. full_page cfg (page_reply cfg srv ep j)) \<and> \<not> full_page cfg (page_reply cfg srv ep n)"
  let ?L = "MP_API_PAGE_LIMIT cfg"
  let ?acc = "concat (map (\<lambda>j. page_items (page_reply cfg srv ep j)) [0..<n])"
  let ?r = "srv n ep (int n * ?L) ?L"
  define res where "res = (case ?r of
                   NoResponse msg \<Rightarrow> Inl (ClientError msg)
                 | Response st tx body \<Rightarrow>
                     if st \<noteq> 200 then Inl (HTTPException st (ascii ''API error: '' @ tx))
                     else (case body of
                             Inl msg \<Rightarrow> Inl (HTTPException 500 (ascii ''Invalid json from API: '' @ msg))
                           | Inr page \<Rightarrow> (case page of JList xs \<Rightarrow> Inr (?acc @ xs) | _ \<Rightarrow> Inr ?acc)))"
  have nf: "\<not> full_page cfg ?r" using a by (simp add: page_reply_def)
  have "get_all cfg srv ep = get_all_loop srv ep ?L n (int n * ?L) ?acc
          (map (\<lambda>j. (int j * ?L, ?L)) [0..<n])"
    using loop_run [of n cfg srv ep] a by (simp add: get_all_def)
  also have "\<dots> = Some (res, map (\<lambda>j. (int j * ?L, ?L)) [0..<n] @ [(int n * ?L, ?L)])"
    unfolding res_def
    by (rule loop_stop [where cfg = cfg and srv = srv and k = n and ep = ep
          and skip = "int n * MP_API_PAGE_LIMIT cfg", OF nf])
  finally have g: "get_all cfg srv ep = Some (res, map (\<lambda>j. (int j * ?L, ?L)) [0..<Suc n])"
    by simp
  have pr: "page_reply cfg srv ep n = ?r" by (simp add: page_reply_def)
  show "\<exists>res. get_all cfg srv ep = Some (res, map (\<lambda>j. (int j * ?L, ?L)) [0..<Suc n]) \<and>
         (\<forall>st tx body. page_reply cfg srv ep n = Response st tx body \<and> st \<noteq> 200 \<longrightarrow>
            res = Inl (HTTPException st (ascii ''API error: '' @ tx))) \<and>
         (\<forall>tx xs. page_reply cfg srv ep n = Response 200 tx (Inr (JList xs)) \<longrightarrow>
            int (length xs) < ?L \<and> res = Inr (?acc @ xs)) \<and>
         (\<forall>tx v. page_reply cfg srv ep n = Response 200 tx (Inr v) \<and> (\<forall>xs. v \<noteq> JList xs) \<longrightarrow>
            res = Inr ?acc) \<and>
         (\<forall>tx msg. page_reply cfg srv ep n = Response 200 tx (Inl msg) \<longrightarrow>
            res = Inl (HTTPException 500 (ascii ''Invalid json from API: '' @ msg))) \<and>
         (\<forall>msg. page_reply cfg srv ep n = NoResponse msg \<longrightarrow> res = Inl (ClientError msg)) \<and>
         ((\<exists>xs. res = Inr xs) \<longleftrightarrow> (\<exists>tx v. page_reply cfg srv ep n = Response 200 tx (Inr v))) \<and>
         ((\<exists>st tx. res = Inl (HTTPException st (ascii ''API error: '' @ tx))) \<longleftrightarrow>
            (\<exists>st tx body. page_reply cfg srv ep n = Response st tx body \<and> st \<noteq> 200))"
  proof (intro exI [of _ res] conjI allI impI)
    show "get_all cfg srv ep = Some (res, map (\<lambda>j. (int j * ?L, ?L)) [0..<Suc n])" by (fact g)
  next
    fix st tx body assume "page_reply cfg srv ep n = Response st tx body \<and> st \<noteq> 200"
    then show "res = Inl (HTTPException st (ascii ''API error: '' @ tx))"
      by (simp add: res_def pr)
  next
    fix tx xs assume h: "page_reply cfg srv ep n = Response 200 tx (Inr (JList xs))"
    then show "int (length xs) < ?L" using nf by (simp add: pr full_page_def)
    from h show "res = Inr (?acc @ xs)" by (simp add: res_def pr)
  next
    fix tx v assume "page_reply cfg srv ep n = Response 200 tx (Inr v) \<and> (\<forall>xs. v \<noteq> JList xs)"
    then show "res = Inr ?acc" by (cases v) (simp_all add: res_def pr)
  next
    fix tx msg assume "page_reply cfg srv ep n = Response 200 tx (Inl msg)"
    then show "res = Inl (HTTPException 500 (ascii ''Invalid json from API: '' @ msg))"
      by (simp add: res_def pr)
  next
    fix msg assume "page_reply cfg srv ep n = NoResponse msg"
    then show "res = Inl (ClientError msg)" by (simp add: res_def pr)
  next
    show "(\<exists>xs. res = Inr xs) \<longleftrightarrow> (\<exists>tx v. page_reply cfg srv ep n = Response 200 tx (Inr v))"
      unfolding pr res_def by (auto split: response.splits sum.splits json.splits)
  next
    show "(\<exists>st tx. res = Inl (HTTPException st (ascii ''API error: '' @ tx))) \<longleftrightarrow>
            (\<exists>st tx body. page_reply cfg srv ep n = Response st tx body \<and> st \<noteq> 200)"
      unfolding pr res_def
      by (auto simp: api_error_neq_invalid_json api_error_neq_invalid_json [THEN not_sym]
          split: response.splits sum.splits json.splits)
  qed
qed

theorem get_all_pagination_witness:
  "full_page small_page_config (page_reply small_page_config three_item_upstream (ascii ''posts/'') 0) \<and>
   \<not> full_page small_page_config (page_reply small_page_config three_item_upstream (ascii ''posts/'') 1) \<and>
   get_all small_page_config three_item_upstream (ascii ''posts/'')
     = Some (Inr [JInt 1, JInt 2, JInt 3], [(0, 2), (2, 2)])"
proof -
  let ?p = "page_reply small_page_config three_item_upstream (ascii ''posts/'')"
  have p0: "?p 0 = Response 200 [] (Inr (JList [JInt 1, JInt 2]))"
    and p1: "?p 1 = Response 200 [] (Inr (JList [JInt 3]))"
    by (simp_all add: page_reply_def three_item_upstream_def small_page_config_def)
  have L: "MP_API_PAGE_LIMIT small_page_config = 2" by (simp add: small_page_config_def)
  have f0: "full_page small_page_config (?p 0)" and f1: "\<not> full_page small_page_config (?p 1)"
    unfolding p0 p1 by (simp_all add: full_page_def L)
  have h: "(\<forall>j<1. full_page small_page_config (?p j)) \<and> \<not> full_page small_page_config (?p 1)"
    using f0 f1 by simp
  from get_all_pagination [of 1 small_page_config three_item_upstream "ascii ''posts/''",
      THEN conjunct1, rule_format, OF h]
  obtain res where
    g: "get_all small_page_config three_item_upstream (ascii ''posts/'')
          = Some (res, map (\<lambda>j. (int j * MP_API_PAGE_LIMIT small_page_config,
                                   MP_API_PAGE_LIMIT small_page_config)) [0..<Suc 1])"
    and r: "\<forall>tx xs. ?p 1 = Response 200 tx (Inr (JList xs)) \<longrightarrow>
              int (length xs) < MP_API_PAGE_LIMIT small_page_config \<and>
              res = Inr (concat (map (\<lambda>j. page_items (?p j)) [0..<1]) @ xs)"
    by (elim exE conjE)
  from r p1 have "res = Inr (concat (map (\<lambda>j. page_items (?p j)) [0..<1]) @ [JInt 3])" by blast
  then have "res = Inr [JInt 1, JInt 2, JInt 3]" by (simp add: p0 page_items_def)
  with g f0 f1 show ?thesis by (simp add: L)
qed

section \<open>The catalog cache\<close>

lemma get_communities_fresh:
  "\<not> real_of_int (CACHE_TTL_SEC cfg) < now - ts (cache_comm st) \<Longrightarrow>
   get_communities cfg srv now st = Some (Inr (items (cache_comm st)), st)"
  by (simp add: get_communities_def)

lemma get_communities_stale:
  assumes "real_of_int (CACHE_TTL_SEC cfg) < now - ts (cache_comm st)"
  shows "get_communities cfg srv now st =
           (case get_all cfg srv (ascii ''communities/'') of
              None \<Rightarrow> None
            | Some (r, sent) \<Rightarrow>
                Some (r, (case r of Inl e \<Rightarrow> st | Inr xs \<Rightarrow> st\<lparr>cache_comm := \<lparr>ts = now, items = xs\<rparr>\<rparr>)
                         \<lparr>fetch_log := fetch_log st @ [(ascii ''communities/'', sent)]\<rparr>))"
  using assms by (auto simp: get_communities_def Let_def split: option.splits sum.splits)

lemma get_posts_fresh:
  "\<not> real_of_int (CACHE_TTL_SEC cfg) < now - ts (cache_posts st) \<Longrightarrow>
   get_posts cfg srv now st = Some (Inr (items (cache_posts st)), st)"
  by (simp add: get_posts_def)

lemma get_posts_stale:
  assumes "real_of_int (CACHE_TTL_SEC cfg) < now - ts (cache_posts st)"
  shows "get_posts cfg srv now st =
           (case get_all cfg srv (ascii ''posts/'') of
              None \<Rightarrow> None
            | Some (r, sent) \<Rightarrow>
                Some (r, (case r of Inl e \<Rightarrow> st | Inr xs \<Rightarrow> st\<lparr>cache_posts := \<lparr>ts = now, items = xs\<rparr>\<rparr>)
                         \<lparr>fetch_log := fetch_log st @ [(ascii ''posts/'', sent)]\<rparr>))"
  using assms by (auto simp: get_posts_def Let_def split: option.splits sum.splits)

lemma get_all_python_upstream:
  "get_all default_config python_upstream ep = Some (Inr python_catalog, [(0, 100)])"
  by (simp add: get_all_def get_all_loop.simps python_upstream_def default_config_def
      python_catalog_def)

lemma get_all_failing_upstream:
  "get_all default_config failing_upstream ep
     = Some (Inl (HTTPException 503 (ascii ''API error: '' @ ascii ''down'')), [(0, 100)])"
  by (simp add: get_all_def get_all_loop.simps failing_upstream_def default_config_def)

lemma default_ttl: "CACHE_TTL_SEC default_config = 60"
  by (simp add: default_config_def)

text \<open>
  C3, as the spec states it, fails for a slot that was never filled. The slot starts as
  \<^verbatim>\<open>{"ts": 0.0, "items": []}\<close> and the only test is \<^verbatim>\<open>now - ts > CACHE_TTL_SEC\<close>, so no
  snapshot existing does not by itself cause a fetch: with \<^verbatim>\<open>MP_API_CACHE_TTL=2000000000\<close>
  and the clock at 1700000000 the first call returns the empty list and sends no request,
  although the upstream holds two communities.
\<close>

theorem cache_get_no_snapshot_counterexample:
  "fetch_log initial_catalog_state = [] \<and>
   get_all long_ttl_config python_upstream (ascii ''communities/'')
     = Some (Inr python_catalog, [(0, 100)]) \<and>
   get_communities long_ttl_config python_upstream 1700000000 initial_catalog_state
     = Some (Inr [], initial_catalog_state)"
  by (simp add: get_communities_def get_all_def get_all_loop.simps python_upstream_def
      python_catalog_def long_ttl_config_def initial_catalog_state_def)

text \<open>
  C3, amended (the test is \<open>now - ts > ttl\<close> alone, a never-filled slot having \<open>ts = 0\<close>
  and no items): for each collection, a call that finds \<open>now - ts \<le> ttl\<close> makes no fetch
  and returns the stored items with the state, fetch log included, unchanged. A call that
  finds \<open>now - ts > ttl\<close> (strictly) makes exactly one fetch: it returns what the fetch
  returns, with one entry added to the fetch log, and does not return exactly when the
  fetch does not. After a successful fetch the slot holds the new items and \<open>ts = now\<close>,
  so a second call within the TTL window returns them with no further fetch: two calls,
  one fetch. After a failed fetch only the log has changed.
\<close>

theorem cache_get_fetches_iff_stale:
  "(\<not> real_of_int (CACHE_TTL_SEC cfg) < now - ts (cache_comm st) \<longrightarrow>
      get_communities cfg srv now st = Some (Inr (items (cache_comm st)), st)) \<and>
   (real_of_int (CACHE_TTL_SEC cfg) < now - ts (cache_comm st) \<and>
    get_all cfg srv (ascii ''communities/'') = Some (Inr xs, sent) \<longrightarrow>
      get_communities cfg srv now st
        = Some (Inr xs, st\<lparr>fetch_log := fetch_log st @ [(ascii ''communities/'', sent)],
                          cache_comm := \<lparr>ts = now, items = xs\<rparr>\<rparr>) \<and>
      (now2 - now \<le> real_of_int (CACHE_TTL_SEC cfg) \<longrightarrow>
         get_communities cfg srv2 now2
             (st\<lparr>fetch_log := fetch_log st @ [(ascii ''communities/'', sent)],
                cache_comm := \<lparr>ts = now, items = xs\<rparr>\<rparr>)
           = Some (Inr xs, st\<lparr>fetch_log := fetch_log st @ [(ascii ''communities/'', sent)],
                             cache_comm := \<lparr>ts = now, items = xs\<rparr>\<rparr>))) \<and>
   (real_of_int (CACHE_TTL_SEC cfg) < now - ts (cache_comm st) \<and>
    get_all cfg srv (ascii ''communities/'') = Some (Inl e, sent) \<longrightarrow>
      get_communities cfg srv now st
        = Some (Inl e, st\<lparr>fetch_log := fetch_log st @ [(ascii ''communities/'', sent)]\<rparr>)) \<and>
   (get_communities cfg srv now st = None \<longleftrightarrow>
      real_of_int (CACHE_TTL_SEC cfg) < now - ts (cache_comm st) \<and>
      get_all cfg srv (ascii ''communities/'') = None) \<and>
   (\<not> real_of_int (CACHE_TTL_SEC cfg) < now - ts (cache_posts st) \<longrightarrow>
      get_posts cfg srv now st = Some (Inr (items (cache_posts st)), st)) \<and>
   (real_of_int (CACHE_TTL_SEC cfg) < now - ts (cache_posts st) \<and>
    get_all cfg srv (ascii ''posts/'') = Some (Inr xs, sent) \<longrightarrow>
      get_posts cfg srv now st
        = Some (Inr xs, st\<lparr>fetch_log := fetch_log st @ [(ascii ''posts/'', sent)],
                          cache_posts := \<lparr>ts = now, items = xs\<rparr>\<rparr>) \<and>
      (now2 - now \<le> real_of_int (CACHE_TTL_SEC cfg) \<longrightarrow>
         get_posts cfg srv2 now2
             (st\<lparr>fetch_log := fetch_log st @ [(ascii ''posts/'', sent)],
                cache_posts := \<lparr>ts = now, items = xs\<rparr>\<rparr>)
           = Some (Inr xs, st\<lparr>fetch_log := fetch_log st @ [(ascii ''posts/'', sent)],
                             cache_posts := \<lparr>ts = now, items = xs\<rparr>\<rparr>))) \<and>
   (real_of_int (CACHE_TTL_SEC cfg) < now - ts (cache_posts st) \<and>
    get_all cfg srv (ascii ''posts/'') = Some (Inl e, sent) \<longrightarrow>
      get_posts cfg srv now st
        = Some (Inl e, st\<lparr>fetch_log := fetch_log st @ [(ascii ''posts/'', sent)]\<rparr>)) \<and>
   (get_posts cfg srv now st = None \<longleftrightarrow>
      real_of_int (CACHE_TTL_SEC cfg) < now - ts (cache_posts st) \<and>
      get_all cfg srv (ascii ''posts/'') = None)"
  by (auto simp: get_communities_def get_posts_def Let_def split: option.splits sum.splits)

theorem cache_get_witness:
  "real_of_int (CACHE_TTL_SEC default_config) < 1700000000 - ts (cache_comm initial_catalog_state) \<and>
   get_all default_config python_upstream (ascii ''communities/'')
     = Some (Inr python_catalog, [(0, 100)]) \<and>
   get_communities default_config python_upstream 1700000000 initial_catalog_state
     = Some (Inr python_catalog, fetched_state) \<and>
   1700000030 - 1700000000 \<le> real_of_int (CACHE_TTL_SEC default_config) \<and>
   get_communities default_config failing_upstream 1700000030 fetched_state
     = Some (Inr python_catalog, fetched_state) \<and>
   real_of_int (CACHE_TTL_SEC default_config) < 1700000000 - ts (cache_posts initial_catalog_state) \<and>
   get_all default_config python_upstream (ascii ''posts/'')
     = Some (Inr python_catalog, [(0, 100)]) \<and>
   get_posts default_config python_upstream 1700000000 initial_catalog_state
     = Some (Inr python_catalog, fetched_posts_state) \<and>
   get_posts default_config failing_upstream 1700000030 fetched_posts_state
     = Some (Inr python_catalog, fetched_posts_state) \<and>
   real_of_int (CACHE_TTL_SEC default_config) < 1700000100 - ts (cache_posts fetched_posts_state) \<and>
   get_all default_config failing_upstream (ascii ''posts/'')
     = Some (Inl (HTTPException 503 (ascii ''API error: '' @ ascii ''down'')), [(0, 100)]) \<and>
   get_posts default_config failing_upstream 1700000100 fetched_posts_state
     = Some (Inl (HTTPException 503 (ascii ''API error: '' @ ascii ''down'')),
             fetched_posts_state\<lparr>fetch_log := [(ascii ''posts/'', [(0, 100)]),
                                                  (ascii ''posts/'', [(0, 100)])]\<rparr>)"
proof -
  have sc: "real_of_int (CACHE_TTL_SEC default_config)
              < 1700000000 - ts (cache_comm initial_catalog_state)"
    and sp: "real_of_int (CACHE_TTL_SEC default_config)
              < 1700000000 - ts (cache_posts initial_catalog_state)"
    by (simp_all add: default_ttl initial_catalog_state_def)
  have w: "1700000030 - 1700000000 \<le> real_of_int (CACHE_TTL_SEC default_config)"
    by (simp add: default_ttl)
  have s2: "real_of_int (CACHE_TTL_SEC default_config)
              < 1700000100 - ts (cache_posts fetched_posts_state)"
    by (simp add: default_ttl fetched_posts_state_def)
  note gc = get_all_python_upstream [of "ascii ''communities/''"]
  note gp = get_all_python_upstream [of "ascii ''posts/''"]
  note gf = get_all_failing_upstream [of "ascii ''posts/''"]
  have fc: "initial_catalog_state\<lparr>fetch_log := fetch_log initial_catalog_state
                @ [(ascii ''communities/'', [(0, 100)])],
              cache_comm := \<lparr>ts = 1700000000, items = python_catalog\<rparr>\<rparr> = fetched_state"
    by (simp add: initial_catalog_state_def fetched_state_def)
  have fp: "initial_catalog_state\<lparr>fetch_log := fetch_log initial_catalog_state
                @ [(ascii ''posts/'', [(0, 100)])],
              cache_posts := \<lparr>ts = 1700000000, items = python_catalog\<rparr>\<rparr> = fetched_posts_state"
    by (simp add: initial_catalog_state_def fetched_posts_state_def)
  have lp: "fetch_log fetched_posts_state @ [(ascii ''posts/'', [(0, 100)])]
              = [(ascii ''posts/'', [(0, 100)]), (ascii ''posts/'', [(0, 100)])]"
    by (simp add: fetched_posts_state_def)
  note tc = cache_get_fetches_iff_stale [of default_config 1700000000 initial_catalog_state
      python_upstream python_catalog "[(0, 100)]" 1700000030 failing_upstream,
      THEN conjunct2, THEN conjunct1, rule_format, OF conjI [OF sc gc], unfolded fc]
  note tp = cache_get_fetches_iff_stale [of default_config 1700000000 initial_catalog_state
      python_upstream python_catalog "[(0, 100)]" 1700000030 failing_upstream,
      THEN conjunct2, THEN conjunct2, THEN conjunct2, THEN conjunct2, THEN conjunct2,
      THEN conjunct1, rule_format, OF conjI [OF sp gp], unfolded fp]
  note tf = cache_get_fetches_iff_stale [of default_config 1700000100 fetched_posts_state
      failing_upstream _ "[(0, 100)]" _ _
      "HTTPException 503 (ascii ''API error: '' @ ascii ''down'')",
      THEN conjunct2, THEN conjunct2, THEN conjunct2, THEN conjunct2, THEN conjunct2,
      THEN conjunct2, THEN conjunct1, rule_format, OF conjI [OF s2 gf], unfolded lp]
  note c1 = tc [THEN conjunct1] and c2 = tc [THEN conjunct2, THEN mp, OF w]
    and p1 = tp [THEN conjunct1] and p2 = tp [THEN conjunct2, THEN mp, OF w]
  from sc gc c1 w c2 sp gp p1 p2 s2 gf tf show ?thesis by (intro conjI)
qed

text \<open>
  C4: when a refresh is due and the paginated fetch raises, the call raises the same error
  and both cache slots (items and timestamp) are as before; a slot changes only when the
  fetch has returned its item list, and then it holds exactly that list and the time of the
  call.
\<close>

theorem failed_fetch_keeps_cache:
  "(real_of_int (CACHE_TTL_SEC cfg) < now - ts (cache_comm st) \<and>
    get_all cfg srv (ascii ''communities/'') = Some (Inl e, sent) \<longrightarrow>
      (\<exists>st'. get_communities cfg srv now st = Some (Inl e, st') \<and>
             cache_comm st' = cache_comm st \<and> cache_posts st' = cache_posts st)) \<and>
   (real_of_int (CACHE_TTL_SEC cfg) < now - ts (cache_posts st) \<and>
    get_all cfg srv (ascii ''posts/'') = Some (Inl e, sent) \<longrightarrow>
      (\<exists>st'. get_posts cfg srv now st = Some (Inl e, st') \<and>
             cache_comm st' = cache_comm st \<and> cache_posts st' = cache_posts st)) \<and>
   (get_communities cfg srv now st = Some (r, st1) \<and> cache_comm st1 \<noteq> cache_comm st \<longrightarrow>
      (\<exists>xs sent'. get_all cfg srv (ascii ''communities/'') = Some (Inr xs, sent') \<and> r = Inr xs \<and>
                  cache_comm st1 = \<lparr>ts = now, items = xs\<rparr>)) \<and>
   (get_posts cfg srv now st = Some (r, st1) \<and> cache_posts st1 \<noteq> cache_posts st \<longrightarrow>
      (\<exists>xs sent'. get_all cfg srv (ascii ''posts/'') = Some (Inr xs, sent') \<and> r = Inr xs \<and>
                  cache_posts st1 = \<lparr>ts = now, items = xs\<rparr>))"
  by (auto simp: get_communities_def get_posts_def Let_def split: if_splits option.splits sum.splits)

theorem failed_fetch_witness:
  "real_of_int (CACHE_TTL_SEC default_config) < 1000 - ts (cache_comm warm_state) \<and>
   get_all default_config failing_upstream (ascii ''communities/'')
     = Some (Inl (HTTPException 503 (ascii ''API error: '' @ ascii ''down'')), [(0, 100)]) \<and>
   (\<exists>st'. get_communities default_config failing_upstream 1000 warm_state
            = Some (Inl (HTTPException 503 (ascii ''API error: '' @ ascii ''down'')), st') \<and>
          cache_comm st' = \<lparr>ts = 100, items = python_catalog\<rparr> \<and>
          cache_posts st' = cache_posts warm_state)"
proof -
  have s: "real_of_int (CACHE_TTL_SEC default_config) < 1000 - ts (cache_comm warm_state)"
    by (simp add: default_ttl warm_state_def)
  note g = get_all_failing_upstream [of "ascii ''communities/''"]
  from failed_fetch_keeps_cache [of default_config 1000 warm_state failing_upstream
      "HTTPException 503 (ascii ''API error: '' @ ascii ''down'')" "[(0, 100)]",
      THEN conjunct1, rule_format, OF conjI [OF s g]]
  obtain st' where "get_communities default_config failing_upstream 1000 warm_state
            = Some (Inl (HTTPException 503 (ascii ''API error: '' @ ascii ''down'')), st')"
    and "cache_comm st' = cache_comm warm_state" and "cache_posts st' = cache_posts warm_state"
    by (elim exE conjE)
  then have "\<exists>st'. get_communities default_config failing_upstream 1000 warm_state
            = Some (Inl (HTTPException 503 (ascii ''API error: '' @ ascii ''down'')), st') \<and>
          cache_comm st' = \<lparr>ts = 100, items = python_catalog\<rparr> \<and>
          cache_posts st' = cache_posts warm_state"
    by (intro exI [of _ st']) (simp add: warm_state_def)
  with s g show ?thesis by (intro conjI)
qed
section \<open>Ranking\<close>

text \<open>
  What holds of the ranking for every request: the number of entries asked for, the order
  \<^verbatim>\<open>np.lexsort((-pop, -scores))\<close> produces (score descending, then popularity descending,
  then the original position), and the score 0 of a pair with a zero norm.
\<close>

lemma reco_k_cases:
  "reco_k \<lparr>skills = sk, limit = None\<rparr> = 50"
  "n \<noteq> 0 \<Longrightarrow> reco_k \<lparr>skills = sk, limit = Some n\<rparr> = max 1 n"
  "reco_k \<lparr>skills = sk, limit = Some 0\<rparr> = 50"
  by (simp_all add: reco_k_def)

lemma lexsort_two_keys:
  "lexsort [k1, k2] = sort_key (\<lambda>i. k2 ! i) (sort_key (\<lambda>i. k1 ! i) [0..<length k2])"
  by (simp add: lexsort_def)

lemma rank_items_order:
  assumes ne: "scores \<noteq> []" and len: "length pop = length scores"
  shows "\<exists>order. rank_items ids pop scores req
                  = map (\<lambda>i. (ids ! i, scores ! i)) (take (nat (reco_k req)) order) \<and>
           distinct order \<and> set order = {0..<length scores} \<and>
           sorted_wrt (\<lambda>i j. scores ! j < scores ! i \<or>
                          (scores ! i = scores ! j \<and>
                             (pop ! j < pop ! i \<or> (pop ! i = pop ! j \<and> i < j)))) order"
proof -
  let ?n = "length scores"
  let ?kp = "\<lambda>i. map uminus pop ! i" and ?ks = "\<lambda>i. map uminus scores ! i"
  define inner where "inner = sort_key ?kp [0..<?n]"
  define order where "order = sort_key ?ks inner"
  have r: "rank_items ids pop scores req
             = map (\<lambda>i. (ids ! i, scores ! i)) (take (nat (reco_k req)) order)"
    using ne by (simp add: rank_items_def lexsort_two_keys order_def inner_def Let_def)
  have d: "distinct order" and s: "set order = {0..<?n}"
    by (simp_all add: order_def inner_def)
  have "sorted_wrt (\<lambda>a b. ?kp a < ?kp b \<or> (?kp a = ?kp b \<and> a < b)) inner"
    unfolding inner_def by (rule sort_key_stable_wrt) simp
  then have "sorted_wrt (\<lambda>a b. ?ks a < ?ks b \<or>
               (?ks a = ?ks b \<and> (?kp a < ?kp b \<or> (?kp a = ?kp b \<and> a < b)))) order"
    unfolding order_def by (rule sort_key_stable_wrt)
  then have "sorted_wrt (\<lambda>i j. scores ! j < scores ! i \<or>
                          (scores ! i = scores ! j \<and>
                             (pop ! j < pop ! i \<or> (pop ! i = pop ! j \<and> i < j)))) order"
    by (rule sorted_wrt_mono_rel [rotated]) (use s len in auto)
  with r d s show ?thesis by blast
qed

lemma sum_list_all_zero: "\<forall>x\<in>set xs. f x = (0::real) \<Longrightarrow> sum_list (map f xs) = 0"
  by (induction xs) auto

lemma cosine_scores_zero_norm:
  assumes "sum_list (map length M) \<noteq> 0" "i < length M" "norm2 u = 0 \<or> norm2 (M ! i) = 0"
  shows "cosine_scores u M ! i = 0"
proof (cases "norm2 u = 0")
  case True
  then show ?thesis using assms by (auto simp: cosine_scores_def)
next
  case False
  with assms have z: "norm2 (M ! i) = 0" by simp
  then have "sum_list (map (\<lambda>x. x * x) (M ! i)) = 0" by (simp add: norm2_def)
  then have "\<forall>x\<in>set (M ! i). x = 0"
    by (subst (asm) sum_list_nonneg_eq_0_iff) auto
  then have "\<forall>p\<in>set (zip (M ! i) u). (case p of (x, y) \<Rightarrow> x * y) = 0"
    by (auto dest: set_zip_leftD)
  then have "dot (M ! i) u = 0"
    unfolding dot_def by (rule sum_list_all_zero)
  then show ?thesis using assms False z by (auto simp: cosine_scores_def Let_def)
qed


lemma recommend_python:
  "recommend cpython_frag python_catalog \<lparr>skills = [ascii ''python''], limit = Some k\<rparr>
     = Inr (take (nat (reco_k \<lparr>skills = [ascii ''python''], limit = Some k\<rparr>)) [(2, 1), (1, 1)])"
  by (simp add: recommend_def python_catalog_def eval_defs rank_items_def cosine_scores_def
      norm2_def dot_def lexsort_def take_map [symmetric])

text \<open>
  C2 holds of the code except for a limit of 0. Line 288 computes
  \<^verbatim>\<open>max(1, int(req.limit or 50))\<close>: the \<^verbatim>\<open>or\<close> that supplies the default for an absent limit
  also replaces 0, so \<^verbatim>\<open>{"skills": ["python"], "limit": 0}\<close> on a catalog of two items
  returns both of them, where a minimum of 1 would return one. The neighbouring inputs
  \<^verbatim>\<open>"limit": -1\<close> and \<^verbatim>\<open>"limit": 1\<close> both return one entry.
\<close>

theorem limit_zero_returns_fifty:
  "predict_communities default_config cpython_frag python_upstream 1700000000 initial_catalog_state
     \<lparr>skills = [ascii ''python''], limit = Some 0\<rparr>
     = Some (Inr [(2, 1), (1, 1)], fetched_state) \<and>
   predict_communities default_config cpython_frag python_upstream 1700000000 initial_catalog_state
     \<lparr>skills = [ascii ''python''], limit = Some (- 1)\<rparr>
     = Some (Inr [(2, 1)], fetched_state) \<and>
   predict_communities default_config cpython_frag python_upstream 1700000000 initial_catalog_state
     \<lparr>skills = [ascii ''python''], limit = Some 1\<rparr>
     = Some (Inr [(2, 1)], fetched_state)"
proof -
  have g: "get_communities default_config python_upstream 1700000000 initial_catalog_state
             = Some (Inr python_catalog, fetched_state)"
    by (simp add: get_communities_def get_all_python_upstream default_ttl initial_catalog_state_def
        fetched_state_def)
  show ?thesis
    by (simp add: predict_communities_def g recommend_python reco_k_def)
qed

end
